theory Spec2Isabelle
  imports Main "HOL-Library.Multiset" "HOL-Library.Char_ord" "HOL-Library.List_Lexorder"
begin

section \<open>Data model\<close>

text \<open>
  The rows the task-instance routes of
  \<^verbatim>\<open>airflow/api_fastapi/core_api/routes/public/task_instances.py\<close> read and write.
  A column that may be NULL is an \<open>option\<close>; the task-instance state \<^verbatim>\<open>none\<close> is the
  NULL state, \<open>None\<close>. Timestamps are points on an integer time line.
\<close>

datatype TaskInstanceState =
    REMOVED | SCHEDULED | QUEUED | RUNNING | SUCCESS | RESTARTING | FAILED
  | UP_FOR_RETRY | UP_FOR_RESCHEDULE | UPSTREAM_FAILED | SKIPPED | DEFERRED

datatype DagRunState = DR_QUEUED | DR_RUNNING | DR_SUCCESS | DR_FAILED

type_synonym datetime = int

record dag_key =
  dag_id :: string

record run_key = dag_key +
  run_id :: string

record DagRun = run_key +
  dagrun_state :: DagRunState
  logical_date :: "datetime option"

text \<open>
  One record type serves the live table (\<^verbatim>\<open>TaskInstance\<close>, \<^verbatim>\<open>TI\<close>) and the history
  table (\<^verbatim>\<open>TaskInstanceHistory\<close>, \<^verbatim>\<open>TIH\<close>): a history row is a snapshot of the same
  columns, and the tries route returns rows of both tables in one list.
\<close>

record TaskInstance = run_key +
  task_id :: string
  map_index :: int
  state :: "TaskInstanceState option"
  try_number :: int
  ti_start_date :: "datetime option"
  ti_end_date :: "datetime option"
  ti_duration :: "int option"

type_synonym TaskInstanceHistory = TaskInstance

text \<open>
  The columns are named \<open>ti_start_date\<close>, \<open>ti_end_date\<close> and \<open>ti_duration\<close> here
  because the request body below has \<open>start_date\<close> and \<open>end_date\<close> fields of its own.
\<close>

text \<open>The database session: the three tables, in storage order.\<close>

record session =
  tis :: "TaskInstance list"
  tihs :: "TaskInstanceHistory list"
  dag_runs :: "DagRun list"

text \<open>
  What an \<^verbatim>\<open>HTTPException\<close> carries: the status code and the message, the message
  kept as a tag with the values the f-string interpolates.
\<close>

datatype detail =
    TaskInstanceNotFound string string string "int option"
  | TaskInstanceIsMapped
  | DagNotFound string
  | DagRunNotFound string string
  | TaskIdNotFound string
  | TaskIdNotMapped string
  | PastFutureWithDagRunId
  | OnlyFailedAndOnlyRunning

datatype error = HTTPException nat detail | MultipleResultsFound

definition HTTP_404_NOT_FOUND :: nat where
  "HTTP_404_NOT_FOUND = 404"

definition HTTP_400_BAD_REQUEST :: nat where
  "HTTP_400_BAD_REQUEST = 400"

record 'a CollectionResponse =
  task_instances :: "'a list"
  total_entries :: nat

section \<open>Query helpers\<close>

text \<open>\<^verbatim>\<open>session.scalar(query)\<close>: the first row, or \<^verbatim>\<open>None\<close> when there is none.\<close>

definition scalar :: "'a list \<Rightarrow> 'a option" where
  "scalar rows = (case rows of [] \<Rightarrow> None | x # _ \<Rightarrow> Some x)"

text \<open>\<^verbatim>\<open>.one_or_none()\<close>: the only row, \<^verbatim>\<open>None\<close> when there is none, an exception otherwise.\<close>

definition one_or_none :: "'a list \<Rightarrow> error + 'a option" where
  "one_or_none rows =
     (case rows of [] \<Rightarrow> Inr None | [x] \<Rightarrow> Inr (Some x) | _ # _ # _ \<Rightarrow> Inl MultipleResultsFound)"

text \<open>\<^verbatim>\<open>.join(TI.dag_run)\<close>: an inner join, which keeps the rows whose dag run exists.\<close>

definition has_dag_run :: "session \<Rightarrow> TaskInstance \<Rightarrow> bool" where
  "has_dag_run s ti = list_ex (\<lambda>dr. dag_id dr = dag_id ti \<and> run_id dr = run_id ti) (dag_runs s)"

definition join_dag_run :: "session \<Rightarrow> TaskInstance list \<Rightarrow> TaskInstance list" where
  "join_dag_run s rows = filter (has_dag_run s) rows"

text \<open>The dag run of \<^verbatim>\<open>select(DagRun).where(DagRun.dag_id == d, DagRun.run_id == r)\<close>.\<close>

definition select_dag_run :: "session \<Rightarrow> string \<Rightarrow> string \<Rightarrow> DagRun option" where
  "select_dag_run s d r = scalar (filter (\<lambda>dr. dag_id dr = d \<and> run_id dr = r) (dag_runs s))"

section \<open>\<^verbatim>\<open>get_task_instance\<close>\<close>

definition get_task_instance_query :: "string \<Rightarrow> string \<Rightarrow> string \<Rightarrow> session \<Rightarrow> TaskInstance list" where
  "get_task_instance_query d r t s =
     join_dag_run s (filter (\<lambda>ti. dag_id ti = d \<and> run_id ti = r \<and> task_id ti = t) (tis s))"

definition get_task_instance :: "string \<Rightarrow> string \<Rightarrow> string \<Rightarrow> session \<Rightarrow> error + TaskInstance" where
  "get_task_instance d r t s =
     (case scalar (get_task_instance_query d r t s) of
        None \<Rightarrow> Inl (HTTPException HTTP_404_NOT_FOUND (TaskInstanceNotFound d r t None))
      | Some task_instance \<Rightarrow>
          if map_index task_instance \<noteq> - 1
          then Inl (HTTPException HTTP_404_NOT_FOUND TaskInstanceIsMapped)
          else Inr task_instance)"

section \<open>\<^verbatim>\<open>get_task_instance_tries\<close>\<close>

text \<open>The inner \<^verbatim>\<open>_query(orm_object)\<close>, over either table.\<close>

definition tries_query :: "string \<Rightarrow> string \<Rightarrow> string \<Rightarrow> int \<Rightarrow> TaskInstance list \<Rightarrow> TaskInstance list" where
  "tries_query d r t mi rows =
     filter (\<lambda>orm_object. dag_id orm_object = d \<and> run_id orm_object = r
                          \<and> task_id orm_object = t \<and> map_index orm_object = mi) rows"

text \<open>
  \<^verbatim>\<open>or_(TI.state != UP_FOR_RETRY, TI.state.is_(None))\<close>. In SQL the comparison of a NULL
  state is not true, so the first disjunct alone drops the rows with no state; the second
  keeps them.
\<close>

definition not_up_for_retry :: "TaskInstance \<Rightarrow> bool" where
  "not_up_for_retry ti =
     ((case state ti of None \<Rightarrow> False | Some st \<Rightarrow> st \<noteq> UP_FOR_RETRY) \<or> state ti = None)"

definition get_task_instance_tries ::
  "string \<Rightarrow> string \<Rightarrow> string \<Rightarrow> session \<Rightarrow> int \<Rightarrow> error + TaskInstance CollectionResponse" where
  "get_task_instance_tries d r t s mi =
     (let tis' = filter not_up_for_retry (tries_query d r t mi (tis s));
          task_instances' = tries_query d r t mi (tihs s) @ tis'
      in if task_instances' = []
         then Inl (HTTPException HTTP_404_NOT_FOUND (TaskInstanceNotFound d r t (Some mi)))
         else Inr \<lparr>task_instances = task_instances', total_entries = length task_instances'\<rparr>)"

section \<open>The DAG-definition provider\<close>

text \<open>
  The dag bag and the dag objects it hands out come from outside the routes. A task
  definition is reduced to what the routes ask of it: \<open>needs_expansion\<close> is the answer of
  \<^verbatim>\<open>task.get_needs_expansion()\<close>. \<open>task_dict\<close> is the dag's dictionary from task id to
  task, in insertion order.
\<close>

record Task =
  needs_expansion :: bool

record DAG = dag_key +
  task_dict :: "(string \<times> Task) list"

text \<open>
  The two lookups of the dag bag are parameters of the model. \<open>get_dag_for_run\<close> takes
  the run as the routes pass it, which in \<^verbatim>\<open>get_task_instance_dependencies\<close> may be
  \<^verbatim>\<open>None\<close>. \<^verbatim>\<open>if not dag\<close> is the test for \<open>None\<close>.
\<close>

record DagBag =
  get_dag_for_run :: "DagRun option \<Rightarrow> session \<Rightarrow> DAG option"
  get_latest_version_of_dag :: "string \<Rightarrow> session \<Rightarrow> DAG option"

text \<open>\<^verbatim>\<open>dag.get_task(task_id)\<close>; \<open>None\<close> stands for the raised \<^verbatim>\<open>TaskNotFound\<close>.\<close>

definition get_task :: "DAG \<Rightarrow> string \<Rightarrow> Task option" where
  "get_task dag t = map_of (task_dict dag) t"

section \<open>\<^verbatim>\<open>get_mapped_task_instances\<close>\<close>

text \<open>
  Modelled from the spec: \<^verbatim>\<open>paginated_select\<close> of \<^verbatim>\<open>airflow.api_fastapi.common.db.common\<close>
  is not among the sources, and the spec leaves pagination to the HTTP layer. The model
  narrows the statement by every filter, orders the rows by the sort key, and cuts the
  page out; the total counts the rows before the cut.
\<close>

definition paginated_select ::
  "TaskInstance list \<Rightarrow> (TaskInstance \<Rightarrow> bool) list \<Rightarrow> (TaskInstance \<Rightarrow> 'k::linorder)
     \<Rightarrow> nat \<Rightarrow> nat \<Rightarrow> TaskInstance list \<times> nat" where
  "paginated_select statement filters order_by offset limit =
     (let rows = filter (\<lambda>ti. list_all (\<lambda>f. f ti) filters) statement
      in (take limit (drop offset (sort_key order_by rows)), length rows))"

definition get_mapped_task_instances_query ::
  "string \<Rightarrow> string \<Rightarrow> string \<Rightarrow> session \<Rightarrow> TaskInstance list" where
  "get_mapped_task_instances_query d r t s =
     join_dag_run s
       (filter (\<lambda>ti. dag_id ti = d \<and> run_id ti = r \<and> task_id ti = t \<and> map_index ti \<ge> 0) (tis s))"

text \<open>The body of \<^verbatim>\<open>if unfiltered_total_count == 0:\<close>, which either raises or falls through.\<close>

definition check_task_is_mapped ::
  "string \<Rightarrow> string \<Rightarrow> string \<Rightarrow> DagBag \<Rightarrow> session \<Rightarrow> error + unit" where
  "check_task_is_mapped d r t dag_bag s =
     (let dag_run = select_dag_run s d r;
          dag = (case dag_run of
                   Some dr \<Rightarrow> get_dag_for_run dag_bag (Some dr) s
                 | None \<Rightarrow> get_latest_version_of_dag dag_bag d s)
      in case dag of
           None \<Rightarrow> Inl (HTTPException HTTP_404_NOT_FOUND (DagNotFound d))
         | Some dag' \<Rightarrow>
             (case get_task dag' t of
                None \<Rightarrow> Inl (HTTPException HTTP_404_NOT_FOUND (TaskIdNotFound t))
              | Some task \<Rightarrow>
                  if \<not> needs_expansion task
                  then Inl (HTTPException HTTP_404_NOT_FOUND (TaskIdNotMapped t))
                  else Inr ()))"

definition get_mapped_task_instances ::
  "string \<Rightarrow> string \<Rightarrow> string \<Rightarrow> DagBag \<Rightarrow> (TaskInstance \<Rightarrow> bool) list
     \<Rightarrow> (TaskInstance \<Rightarrow> 'k::linorder) \<Rightarrow> nat \<Rightarrow> nat \<Rightarrow> session
     \<Rightarrow> error + TaskInstance CollectionResponse" where
  "get_mapped_task_instances d r t dag_bag filters order_by offset limit s =
     (let query = get_mapped_task_instances_query d r t s;
          unfiltered_total_count = length query
      in case (if unfiltered_total_count = 0 then check_task_is_mapped d r t dag_bag s
               else Inr ()) of
           Inl e \<Rightarrow> Inl e
         | Inr _ \<Rightarrow>
             (case paginated_select query filters order_by offset limit of
                (task_instance_select, total_entries') \<Rightarrow>
                  Inr \<lparr>task_instances = task_instance_select, total_entries = total_entries'\<rparr>))"

section \<open>\<^verbatim>\<open>get_task_instance_dependencies\<close>\<close>

record DependencyStatus =
  name :: string
  reason :: string

record TaskDependencyCollectionResponse =
  dependencies :: "DependencyStatus list"

text \<open>
  Modelled from the spec: \<^verbatim>\<open>TI.get_failed_dep_statuses\<close> and the policy set
  \<^verbatim>\<open>SCHEDULER_QUEUED_DEPS\<close> are not among the sources. By the spec a policy is a named
  check that is evaluated on its own and answers with a reason when it fails: each
  failing policy contributes exactly one status, a passing one contributes nothing.
  The policy set is a parameter, a list in the order in which it happens to be evaluated.
\<close>

record Policy =
  dep_name :: string
  evaluate :: "TaskInstance \<Rightarrow> Task \<Rightarrow> session \<Rightarrow> string option"

definition get_failed_dep_statuses ::
  "TaskInstance \<Rightarrow> Task \<Rightarrow> Policy list \<Rightarrow> session \<Rightarrow> DependencyStatus list" where
  "get_failed_dep_statuses ti task dep_context s =
     List.map_filter
       (\<lambda>dep. map_option (\<lambda>why. \<lparr>name = dep_name dep, reason = why\<rparr>) (evaluate dep ti task s))
       dep_context"

text \<open>
  The strings are ordered as Python orders them, character by character; \<open>sort_key\<close> is
  stable, as \<^verbatim>\<open>sorted\<close> is.
\<close>

definition get_task_instance_dependencies ::
  "Policy list \<Rightarrow> string \<Rightarrow> string \<Rightarrow> string \<Rightarrow> session \<Rightarrow> DagBag \<Rightarrow> int
     \<Rightarrow> error + TaskDependencyCollectionResponse" where
  "get_task_instance_dependencies SCHEDULER_QUEUED_DEPS d r t s dag_bag mi =
     (let query = filter (\<lambda>ti. dag_id ti = d \<and> run_id ti = r \<and> task_id ti = t
                               \<and> map_index ti = mi) (tis s)
      in case one_or_none query of
           Inl e \<Rightarrow> Inl e
         | Inr None \<Rightarrow> Inl (HTTPException HTTP_404_NOT_FOUND (TaskInstanceNotFound d r t (Some mi)))
         | Inr (Some ti) \<Rightarrow>
             Inr \<lparr>dependencies =
               (if state ti \<in> {None, Some SCHEDULED}
                then
                  (let dag_run = select_dag_run s (dag_id ti) (run_id ti)
                   in case get_dag_for_run dag_bag dag_run s of
                        None \<Rightarrow> []
                      | Some dag \<Rightarrow>
                          (case get_task dag (task_id ti) of
                             None \<Rightarrow> []
                           | Some task \<Rightarrow>
                               sort_key name
                                 (get_failed_dep_statuses ti task SCHEDULER_QUEUED_DEPS s)))
                else [])\<rparr>)"

section \<open>The clearing engine\<close>

text \<open>
  An entry of \<^verbatim>\<open>task_ids\<close> is a task id or a pair of a task id and a map index.
\<close>

datatype task_ref = TaskId string | TaskIdMapIndex string int

text \<open>
  \<open>common_params\<close> holds the keyword arguments the route prepares for \<^verbatim>\<open>dag.clear\<close> (the
  dag bag and the session are passed on their own); the request body has the same five
  fields and eight more.
\<close>

record common_params =
  dry_run :: bool
  task_ids :: "task_ref list option"
  run_on_latest_version :: bool
  only_failed :: bool
  only_running :: bool

record ClearTaskInstancesBody = common_params +
  start_date :: "datetime option"
  end_date :: "datetime option"
  reset_dag_runs :: bool
  dag_run_id :: "string option"
  include_upstream :: bool
  include_downstream :: bool
  include_future :: bool
  include_past :: bool

text \<open>The two ways \<^verbatim>\<open>dag.clear\<close> is called: with \<^verbatim>\<open>run_id\<close>, or with the two dates.\<close>

datatype clear_scope = ByRunId string | ByDates "datetime option" "datetime option"

definition same_key :: "TaskInstance \<Rightarrow> TaskInstance \<Rightarrow> bool" where
  "same_key a b =
     (dag_id a = dag_id b \<and> run_id a = run_id b \<and> task_id a = task_id b \<and> map_index a = map_index b)"

definition owns :: "DagRun \<Rightarrow> TaskInstance \<Rightarrow> bool" where
  "owns dr ti = (dag_id dr = dag_id ti \<and> run_id dr = run_id ti)"

text \<open>
  Modelled from the spec: the History Archiver, which is not among the sources.
  \<open>archive\<close> inserts one history row copying the try of the task instance; it skips a row
  whose state is \<^verbatim>\<open>up_for_retry\<close> or \<^verbatim>\<open>None\<close>, and is a no-op for a try number that is
  archived already (the unique constraint on the key and the try number).
\<close>

definition archive :: "TaskInstance \<Rightarrow> session \<Rightarrow> session" where
  "archive ti s =
     (if state ti = None \<or> state ti = Some UP_FOR_RETRY then s
      else if list_ex (\<lambda>h. same_key h ti \<and> try_number h = try_number ti) (tihs s) then s
      else s\<lparr>tihs := tihs s @ [ti]\<rparr>)"

text \<open>
  Modelled from the spec: \<^verbatim>\<open>clear_task_instances\<close> of \<^verbatim>\<open>airflow.models.taskinstance\<close> is
  not among the sources. By the spec the mutation resets each affected task instance's
  state to \<^verbatim>\<open>none\<close>, clearing the try-specific fields and leaving the try number, and, if
  a dag run state is requested, forces the owning dag run to it; the steps for one task
  instance are archive, then mutate the task instance, then conditionally mutate the dag
  run. The route passes \<^verbatim>\<open>DagRunState.QUEUED if reset_dag_runs else False\<close>, here
  \<open>Some DR_QUEUED\<close> or \<open>None\<close>. The binding to a dag version is not tracked by the model,
  so \<open>run_on_latest_version\<close> is taken and not used.
\<close>

definition reset_try_fields :: "TaskInstance \<Rightarrow> TaskInstance" where
  "reset_try_fields ti =
     ti\<lparr>state := None, ti_start_date := None, ti_end_date := None, ti_duration := None\<rparr>"

definition clear_one :: "DagRunState option \<Rightarrow> TaskInstance \<Rightarrow> session \<Rightarrow> session" where
  "clear_one dag_run_state ti s =
     (let s1 = archive ti s;
          s2 = s1\<lparr>tis := map (\<lambda>row. if same_key row ti then reset_try_fields row else row) (tis s1)\<rparr>
      in case dag_run_state of
           None \<Rightarrow> s2
         | Some st \<Rightarrow>
             s2\<lparr>dag_runs := map (\<lambda>dr. if owns dr ti then dr\<lparr>dagrun_state := st\<rparr> else dr)
                                 (dag_runs s2)\<rparr>)"

definition clear_task_instances ::
  "TaskInstance list \<Rightarrow> session \<Rightarrow> DagRunState option \<Rightarrow> bool \<Rightarrow> session" where
  "clear_task_instances tis' s dag_run_state run_on_latest = fold (clear_one dag_run_state) tis' s"

text \<open>
  Modelled from the spec: \<^verbatim>\<open>dag.clear\<close> is not among the sources. By the spec a run is in
  a date-range scope when its logical timestamp falls in \<open>[start_date, end_date]\<close>, an
  absent bound leaving that side open; a run-scoped request takes the task instances of
  the one named run; supplied task ids narrow the set to the task instances of those
  tasks (an entry with a map index to that one instance); \<^verbatim>\<open>only_failed\<close> and
  \<^verbatim>\<open>only_running\<close> narrow it to the task instances in \<^verbatim>\<open>failed\<close> or \<^verbatim>\<open>running\<close> or their
  retry-equivalent states, and the two flags together are a caller error. The spec does
  not list the retry-equivalent states: \<open>retry_equivalent\<close> is a parameter. With
  \<^verbatim>\<open>dry_run\<close> the affected set is returned and nothing is changed; without it the
  affected task instances are reset as well, and no dag run state is asked for.
\<close>

definition in_window :: "datetime option \<Rightarrow> datetime option \<Rightarrow> datetime option \<Rightarrow> bool" where
  "in_window lo hi d =
     ((case lo of None \<Rightarrow> True | Some l \<Rightarrow> (case d of None \<Rightarrow> False | Some x \<Rightarrow> l \<le> x))
      \<and> (case hi of None \<Rightarrow> True | Some h \<Rightarrow> (case d of None \<Rightarrow> False | Some x \<Rightarrow> x \<le> h)))"

definition in_scope :: "session \<Rightarrow> clear_scope \<Rightarrow> TaskInstance \<Rightarrow> bool" where
  "in_scope s scope ti =
     (case scope of
        ByRunId r \<Rightarrow> run_id ti = r
      | ByDates lo hi \<Rightarrow>
          list_ex (\<lambda>dr. owns dr ti \<and> in_window lo hi (logical_date dr)) (dag_runs s))"

definition in_task_ids :: "task_ref list option \<Rightarrow> TaskInstance \<Rightarrow> bool" where
  "in_task_ids refs ti =
     (case refs of
        None \<Rightarrow> True
      | Some rs \<Rightarrow>
          list_ex (\<lambda>ref. case ref of
                           TaskId t \<Rightarrow> task_id ti = t
                         | TaskIdMapIndex t mi \<Rightarrow> task_id ti = t \<and> map_index ti = mi) rs)"

definition in_states :: "TaskInstanceState list \<Rightarrow> TaskInstance \<Rightarrow> bool" where
  "in_states sts ti = (case state ti of None \<Rightarrow> False | Some st \<Rightarrow> st \<in> set sts)"

definition in_state_filter ::
  "(TaskInstanceState \<Rightarrow> TaskInstanceState list) \<Rightarrow> bool \<Rightarrow> bool \<Rightarrow> TaskInstance \<Rightarrow> bool" where
  "in_state_filter retry_equivalent only_failed' only_running' ti =
     (if only_failed' then in_states (FAILED # retry_equivalent FAILED) ti
      else if only_running' then in_states (RUNNING # retry_equivalent RUNNING) ti
      else True)"

definition affected_by ::
  "(TaskInstanceState \<Rightarrow> TaskInstanceState list) \<Rightarrow> DAG \<Rightarrow> common_params \<Rightarrow> clear_scope
     \<Rightarrow> session \<Rightarrow> TaskInstance \<Rightarrow> bool" where
  "affected_by retry_equivalent dag params scope s ti =
     (dag_id ti = dag_id dag \<and> in_scope s scope ti \<and> in_task_ids (task_ids params) ti
      \<and> in_state_filter retry_equivalent (only_failed params) (only_running params) ti)"

definition dag_clear ::
  "(TaskInstanceState \<Rightarrow> TaskInstanceState list) \<Rightarrow> DAG \<Rightarrow> common_params \<Rightarrow> clear_scope
     \<Rightarrow> session \<Rightarrow> (error + TaskInstance list) \<times> session" where
  "dag_clear retry_equivalent dag params scope s =
     (if only_failed params \<and> only_running params
      then (Inl (HTTPException HTTP_400_BAD_REQUEST OnlyFailedAndOnlyRunning), s)
      else
        (let affected = filter (affected_by retry_equivalent dag params scope s) (tis s)
         in if dry_run params then (Inr affected, s)
            else (Inr affected,
                  clear_task_instances affected s None (run_on_latest_version params))))"

section \<open>\<^verbatim>\<open>post_clear_task_instances\<close>\<close>

text \<open>
  The block \<^verbatim>\<open>if dag_run_id is not None:\<close>. It looks the run up, takes the dag version
  of the run, refuses \<^verbatim>\<open>include_past\<close> and \<^verbatim>\<open>include_future\<close>, and sets both dates of
  the body to the run's logical date.
\<close>

definition resolve_dag_run ::
  "string \<Rightarrow> DagBag \<Rightarrow> ClearTaskInstancesBody \<Rightarrow> DAG \<Rightarrow> session
     \<Rightarrow> error + DAG \<times> ClearTaskInstancesBody" where
  "resolve_dag_run d dag_bag body dag s =
     (case dag_run_id body of
        None \<Rightarrow> Inr (dag, body)
      | Some rid \<Rightarrow>
          (case select_dag_run s d rid of
             None \<Rightarrow> Inl (HTTPException HTTP_404_NOT_FOUND (DagRunNotFound rid d))
           | Some dag_run \<Rightarrow>
               (case get_dag_for_run dag_bag (Some dag_run) s of
                  None \<Rightarrow> Inl (HTTPException HTTP_404_NOT_FOUND (DagNotFound d))
                | Some dag' \<Rightarrow>
                    if include_past body \<or> include_future body
                    then Inl (HTTPException HTTP_400_BAD_REQUEST PastFutureWithDagRunId)
                    else Inr (dag', body\<lparr>start_date := logical_date dag_run,
                                         end_date := logical_date dag_run\<rparr>))))"

text \<open>
  The block \<^verbatim>\<open>if task_ids is not None:\<close>. \<open>partial_subset\<close> is the dag's method, a
  parameter here, with the arguments in the order \<^verbatim>\<open>task_ids\<close>, \<^verbatim>\<open>include_downstream\<close>,
  \<^verbatim>\<open>include_upstream\<close>. In \<^verbatim>\<open>tid != task_id\<close> a string is compared with the list
  \<^verbatim>\<open>task_id\<close>, so the test holds for every \<^verbatim>\<open>tid\<close> and every key of the subset's
  \<^verbatim>\<open>task_dict\<close> is appended.
\<close>

definition expand_task_ids ::
  "(DAG \<Rightarrow> string list \<Rightarrow> bool \<Rightarrow> bool \<Rightarrow> DAG) \<Rightarrow> ClearTaskInstancesBody \<Rightarrow> DAG
     \<Rightarrow> DAG \<times> task_ref list option" where
  "expand_task_ids partial_subset body dag =
     (case task_ids body of
        None \<Rightarrow> (dag, None)
      | Some task_ids' \<Rightarrow>
          (let task_id' = map (\<lambda>task. case task of TaskIdMapIndex t _ \<Rightarrow> t | TaskId t \<Rightarrow> t) task_ids';
               dag' = partial_subset dag task_id' (include_downstream body) (include_upstream body)
           in (dag', Some (if length (task_dict dag') > 1
                           then task_ids' @ map (\<lambda>(tid, _). TaskId tid) (task_dict dag')
                           else task_ids'))))"

text \<open>
  The route returns the response and leaves the session as its second component. Every
  exception is raised before anything has been written, so the session of a failed call
  is the one it was given. The list \<^verbatim>\<open>task_instances\<close> holds the session's own row
  objects: after \<^verbatim>\<open>clear_task_instances\<close> has reset them the response shows them reset.
\<close>

definition post_clear_task_instances ::
  "(DAG \<Rightarrow> string list \<Rightarrow> bool \<Rightarrow> bool \<Rightarrow> DAG) \<Rightarrow> (TaskInstanceState \<Rightarrow> TaskInstanceState list)
     \<Rightarrow> string \<Rightarrow> DagBag \<Rightarrow> ClearTaskInstancesBody \<Rightarrow> session
     \<Rightarrow> (error + TaskInstance CollectionResponse) \<times> session" where
  "post_clear_task_instances partial_subset retry_equivalent d dag_bag body s =
     (case get_latest_version_of_dag dag_bag d s of
        None \<Rightarrow> (Inl (HTTPException HTTP_404_NOT_FOUND (DagNotFound d)), s)
      | Some dag \<Rightarrow>
          (case resolve_dag_run d dag_bag body dag s of
             Inl e \<Rightarrow> (Inl e, s)
           | Inr (dag1, body1) \<Rightarrow>
               (let past = include_past body;
                    future = include_future body;
                    body2 = (if past then body1\<lparr>start_date := None\<rparr> else body1);
                    body3 = (if future then body2\<lparr>end_date := None\<rparr> else body2)
                in case expand_task_ids partial_subset body3 dag1 of
                     (dag2, task_ids') \<Rightarrow>
                       (let params = \<lparr>dry_run = True, task_ids = task_ids',
                                      run_on_latest_version = run_on_latest_version body3,
                                      only_failed = only_failed body3,
                                      only_running = only_running body3\<rparr>;
                            scope = (case dag_run_id body of
                                       Some rid \<Rightarrow>
                                         if \<not> (past \<or> future) then ByRunId rid
                                         else ByDates (start_date body3) (end_date body3)
                                     | None \<Rightarrow> ByDates (start_date body3) (end_date body3))
                        in case dag_clear retry_equivalent dag2 params scope s of
                             (Inl e, s1) \<Rightarrow> (Inl e, s1)
                           | (Inr task_instances', s1) \<Rightarrow>
                               if \<not> dry_run body
                               then
                                 (Inr \<lparr>task_instances = map reset_try_fields task_instances',
                                       total_entries = length task_instances'\<rparr>,
                                  clear_task_instances task_instances' s1
                                    (if reset_dag_runs body then Some DR_QUEUED else None)
                                    (run_on_latest_version body))
                               else
                                 (Inr \<lparr>task_instances = task_instances',
                                       total_entries = length task_instances'\<rparr>, s1)))))"

section \<open>A small store for the concrete instances\<close>

text \<open>
  One dag \<open>d\<close> with an unmapped task \<open>t\<close>, a mapped task \<open>m\<close> and a mapped task \<open>e\<close> that
  expanded to nothing; two runs; the first run holds the task instance of the spec's
  clearing scenario.
\<close>

definition ex_run1 :: DagRun where
  "ex_run1 = \<lparr>dag_id = ''d'', run_id = ''r1'', dagrun_state = DR_FAILED, logical_date = Some 100\<rparr>"

definition ex_run2 :: DagRun where
  "ex_run2 = \<lparr>dag_id = ''d'', run_id = ''r2'', dagrun_state = DR_SUCCESS, logical_date = Some 200\<rparr>"

definition ex_ti :: "string \<Rightarrow> string \<Rightarrow> int \<Rightarrow> TaskInstanceState option \<Rightarrow> int \<Rightarrow> TaskInstance" where
  "ex_ti r t mi st n =
     \<lparr>dag_id = ''d'', run_id = r, task_id = t, map_index = mi, state = st, try_number = n,
      ti_start_date = Some 10, ti_end_date = Some 20, ti_duration = Some 10\<rparr>"

definition ex_session :: session where
  "ex_session =
     \<lparr>tis = [ex_ti ''r1'' ''t'' (- 1) (Some FAILED) 1,
             ex_ti ''r1'' ''m'' 0 (Some RUNNING) 1,
             ex_ti ''r1'' ''m'' 1 None 0,
             ex_ti ''r2'' ''t'' (- 1) (Some UP_FOR_RETRY) 2,
             ex_ti ''r2'' ''m'' 0 (Some SUCCESS) 1],
      tihs = [ex_ti ''r2'' ''t'' (- 1) (Some FAILED) 1],
      dag_runs = [ex_run1, ex_run2]\<rparr>"

definition ex_dag :: DAG where
  "ex_dag =
     \<lparr>dag_id = ''d'',
      task_dict = [(''t'', \<lparr>needs_expansion = False\<rparr>), (''m'', \<lparr>needs_expansion = True\<rparr>),
                   (''e'', \<lparr>needs_expansion = True\<rparr>)]\<rparr>"

definition ex_dag_bag :: DagBag where
  "ex_dag_bag =
     \<lparr>get_dag_for_run =
        (\<lambda>dag_run s. case dag_run of
                        None \<Rightarrow> None
                      | Some dr \<Rightarrow> if dag_id dr = ''d'' then Some ex_dag else None),
      get_latest_version_of_dag = (\<lambda>d s. if d = ''d'' then Some ex_dag else None)\<rparr>"

text \<open>Three policies: two that fail, named out of alphabetical order, and one that passes.\<close>

definition ex_pool_dep :: Policy where
  "ex_pool_dep = \<lparr>dep_name = ''pool slots'', evaluate = (\<lambda>ti task s. Some ''no free slot'')\<rparr>"

definition ex_paused_dep :: Policy where
  "ex_paused_dep = \<lparr>dep_name = ''dag paused'', evaluate = (\<lambda>ti task s. Some ''the dag is paused'')\<rparr>"

definition ex_passing_dep :: Policy where
  "ex_passing_dep = \<lparr>dep_name = ''executor'', evaluate = (\<lambda>ti task s. None)\<rparr>"

text \<open>
  The request of the spec's scenario: clear run \<open>r1\<close>, only the failed task instances,
  for real, resetting the dag run. The subset of a dag keeps the named tasks, and no
  state counts as retry-equivalent.
\<close>

definition ex_body :: ClearTaskInstancesBody where
  "ex_body =
     \<lparr>dry_run = False, task_ids = None, run_on_latest_version = False, only_failed = True,
      only_running = False, start_date = None, end_date = None, reset_dag_runs = True,
      dag_run_id = Some ''r1'', include_upstream = False, include_downstream = False,
      include_future = False, include_past = False\<rparr>"

definition ex_partial_subset :: "DAG \<Rightarrow> string list \<Rightarrow> bool \<Rightarrow> bool \<Rightarrow> DAG" where
  "ex_partial_subset dag ids downstream upstream =
     dag\<lparr>task_dict := filter (\<lambda>(tid, _). tid \<in> set ids) (task_dict dag)\<rparr>"

definition ex_retry_equivalent :: "TaskInstanceState \<Rightarrow> TaskInstanceState list" where
  "ex_retry_equivalent st = []"

text \<open>A date-range request: every task instance of the runs from time 150 on, as a preview.\<close>

definition ex_range_body :: ClearTaskInstancesBody where
  "ex_range_body = ex_body\<lparr>dag_run_id := None, only_failed := False, dry_run := True,
                          start_date := Some 150, end_date := Some 160, include_future := True\<rparr>"

text \<open>The store after the scenario: the failed try archived, the task instance reset, the run queued.\<close>

definition ex_cleared_ti :: TaskInstance where
  "ex_cleared_ti =
     \<lparr>dag_id = ''d'', run_id = ''r1'', task_id = ''t'', map_index = - 1, state = None,
      try_number = 1, ti_start_date = None, ti_end_date = None, ti_duration = None\<rparr>"

definition ex_cleared_session :: session where
  "ex_cleared_session =
     \<lparr>tis = [ex_cleared_ti,
             ex_ti ''r1'' ''m'' 0 (Some RUNNING) 1,
             ex_ti ''r1'' ''m'' 1 None 0,
             ex_ti ''r2'' ''t'' (- 1) (Some UP_FOR_RETRY) 2,
             ex_ti ''r2'' ''m'' 0 (Some SUCCESS) 1],
      tihs = [ex_ti ''r2'' ''t'' (- 1) (Some FAILED) 1, ex_ti ''r1'' ''t'' (- 1) (Some FAILED) 1],
      dag_runs = [ex_run1\<lparr>dagrun_state := DR_QUEUED\<rparr>, ex_run2]\<rparr>"

lemmas ex_defs = ex_run1_def ex_run2_def ex_ti_def ex_session_def ex_dag_def ex_dag_bag_def
  ex_pool_dep_def ex_paused_dep_def ex_passing_dep_def ex_body_def ex_partial_subset_def
  ex_retry_equivalent_def ex_cleared_ti_def ex_cleared_session_def

section \<open>Looking one task instance up\<close>

lemma get_task_instance_first_row:
  "get_task_instance_query d r t s = ti # rest \<Longrightarrow>
     get_task_instance d r t s =
       (if map_index ti = - 1 then Inr ti
        else Inl (HTTPException HTTP_404_NOT_FOUND TaskInstanceIsMapped))"
  by (simp add: get_task_instance_def scalar_def)

lemma get_task_instance_query_member:
  "ti \<in> set (get_task_instance_query d r t s) \<longleftrightarrow>
     ti \<in> set (tis s) \<and> has_dag_run s ti \<and> dag_id ti = d \<and> run_id ti = r \<and> task_id ti = t"
  by (auto simp: get_task_instance_query_def join_dag_run_def)

lemma get_task_instance_returns:
  assumes "get_task_instance d r t s = Inr ti"
  shows "ti \<in> set (tis s) \<and> dag_id ti = d \<and> run_id ti = r \<and> task_id ti = t \<and> map_index ti = - 1"
proof -
  from assms obtain rest where q: "get_task_instance_query d r t s = ti # rest"
    and mi: "map_index ti = - 1"
    by (auto simp: get_task_instance_def scalar_def split: list.splits if_splits)
  have "ti \<in> set (get_task_instance_query d r t s)"
    by (simp add: q)
  with mi show ?thesis
    by (simp add: get_task_instance_query_member)
qed

lemma get_task_instance_all_mapped:
  assumes ex: "\<exists>ti \<in> set (tis s). has_dag_run s ti \<and> dag_id ti = d \<and> run_id ti = r \<and> task_id ti = t"
    and all: "\<forall>ti \<in> set (tis s). dag_id ti = d \<and> run_id ti = r \<and> task_id ti = t \<longrightarrow> map_index ti \<noteq> - 1"
  shows "get_task_instance d r t s = Inl (HTTPException HTTP_404_NOT_FOUND TaskInstanceIsMapped)"
proof -
  from ex obtain ti0 where "ti0 \<in> set (get_task_instance_query d r t s)"
    unfolding get_task_instance_query_member by blast
  then obtain ti rest where q: "get_task_instance_query d r t s = ti # rest"
    by (cases "get_task_instance_query d r t s") simp_all
  then have "ti \<in> set (get_task_instance_query d r t s)"
    by simp
  with all have "map_index ti \<noteq> - 1"
    by (simp add: get_task_instance_query_member)
  with q show ?thesis
    by (simp add: get_task_instance_first_row)
qed

text \<open>
  C9. The lookup without a map index examines the first row that matches
  \<open>(dag_id, run_id, task_id)\<close>. If that row's map index is not \<open>-1\<close> the lookup fails with
  404, the message saying that the task instance is mapped and the map index must be
  given, although a matching row exists; it returns the row only when its map index is
  \<open>-1\<close>. So whatever the lookup returns is a stored row with the three ids and map index
  \<open>-1\<close>, and a task whose matching rows are all mapped always gets the 404.
\<close>

theorem get_task_instance_unmapped_only:
  "(\<forall>ti rest. get_task_instance_query d r t s = ti # rest \<longrightarrow>
      get_task_instance d r t s =
        (if map_index ti = - 1 then Inr ti
         else Inl (HTTPException HTTP_404_NOT_FOUND TaskInstanceIsMapped)))
   \<and> (\<forall>ti. get_task_instance d r t s = Inr ti \<longrightarrow>
         ti \<in> set (tis s) \<and> dag_id ti = d \<and> run_id ti = r \<and> task_id ti = t \<and> map_index ti = - 1)
   \<and> ((\<exists>ti \<in> set (tis s). has_dag_run s ti \<and> dag_id ti = d \<and> run_id ti = r \<and> task_id ti = t)
        \<and> (\<forall>ti \<in> set (tis s). dag_id ti = d \<and> run_id ti = r \<and> task_id ti = t \<longrightarrow> map_index ti \<noteq> - 1)
       \<longrightarrow> get_task_instance d r t s = Inl (HTTPException HTTP_404_NOT_FOUND TaskInstanceIsMapped))"
  using get_task_instance_first_row [of d r t s] get_task_instance_returns [of d r t s]
    get_task_instance_all_mapped [of s d r t]
  by blast

theorem get_task_instance_unmapped_only_witness:
  "get_task_instance_query ''d'' ''r1'' ''m'' ex_session
     = [ex_ti ''r1'' ''m'' 0 (Some RUNNING) 1, ex_ti ''r1'' ''m'' 1 None 0]
   \<and> get_task_instance ''d'' ''r1'' ''m'' ex_session
     = Inl (HTTPException HTTP_404_NOT_FOUND TaskInstanceIsMapped)"
proof -
  have q: "get_task_instance_query ''d'' ''r1'' ''m'' ex_session
     = [ex_ti ''r1'' ''m'' 0 (Some RUNNING) 1, ex_ti ''r1'' ''m'' 1 None 0]"
    by (simp add: get_task_instance_query_def join_dag_run_def has_dag_run_def ex_defs)
  have "get_task_instance ''d'' ''r1'' ''m'' ex_session =
        (if map_index (ex_ti ''r1'' ''m'' 0 (Some RUNNING) 1) = - 1
         then Inr (ex_ti ''r1'' ''m'' 0 (Some RUNNING) 1)
         else Inl (HTTPException HTTP_404_NOT_FOUND TaskInstanceIsMapped))"
    using get_task_instance_unmapped_only [of "''d''" "''r1''" "''m''" ex_session] q by blast
  then show ?thesis
    using q by (simp add: ex_ti_def)
qed

section \<open>The tries of a task instance\<close>

lemma not_up_for_retry_iff: "not_up_for_retry ti \<longleftrightarrow> state ti \<noteq> Some UP_FOR_RETRY"
  by (cases "state ti") (simp_all add: not_up_for_retry_def)

lemma tries_live_rows:
  "filter not_up_for_retry (tries_query d r t mi rows) =
     filter (\<lambda>ti. dag_id ti = d \<and> run_id ti = r \<and> task_id ti = t \<and> map_index ti = mi
                   \<and> state ti \<noteq> Some UP_FOR_RETRY) rows"
  by (simp add: tries_query_def not_up_for_retry_iff conj_commute conj_left_commute cong: conj_cong)

text \<open>
  C10. For a key \<open>(dag_id, run_id, task_id, map_index)\<close> the tries are all history rows
  of the key followed by the live rows of the key whose state is not \<^verbatim>\<open>up_for_retry\<close>;
  a live row with no state is among them. The route fails with 404 exactly when this
  combined list is empty, and otherwise returns it with its length.
\<close>

theorem get_task_instance_tries_rows:
  "(let hist = filter (\<lambda>h. dag_id h = d \<and> run_id h = r \<and> task_id h = t \<and> map_index h = mi) (tihs s);
        live = filter (\<lambda>ti. dag_id ti = d \<and> run_id ti = r \<and> task_id ti = t \<and> map_index ti = mi
                             \<and> state ti \<noteq> Some UP_FOR_RETRY) (tis s)
    in get_task_instance_tries d r t s mi =
         (if hist @ live = []
          then Inl (HTTPException HTTP_404_NOT_FOUND (TaskInstanceNotFound d r t (Some mi)))
          else Inr \<lparr>task_instances = hist @ live, total_entries = length (hist @ live)\<rparr>))
   \<and> (\<forall>ti \<in> set (tis s).
         dag_id ti = d \<and> run_id ti = r \<and> task_id ti = t \<and> map_index ti = mi \<and> state ti = None \<longrightarrow>
         (\<exists>resp. get_task_instance_tries d r t s mi = Inr resp \<and> ti \<in> set (task_instances resp)))"
proof -
  let ?hist = "filter (\<lambda>h. dag_id h = d \<and> run_id h = r \<and> task_id h = t \<and> map_index h = mi) (tihs s)"
  let ?live = "filter (\<lambda>ti. dag_id ti = d \<and> run_id ti = r \<and> task_id ti = t \<and> map_index ti = mi
                             \<and> state ti \<noteq> Some UP_FOR_RETRY) (tis s)"
  have res: "get_task_instance_tries d r t s mi =
         (if ?hist @ ?live = []
          then Inl (HTTPException HTTP_404_NOT_FOUND (TaskInstanceNotFound d r t (Some mi)))
          else Inr \<lparr>task_instances = ?hist @ ?live, total_entries = length (?hist @ ?live)\<rparr>)"
    unfolding get_task_instance_tries_def Let_def tries_live_rows
    by (simp add: tries_query_def)
  have "\<exists>resp. get_task_instance_tries d r t s mi = Inr resp \<and> ti \<in> set (task_instances resp)"
    if "ti \<in> set (tis s)"
      and "dag_id ti = d \<and> run_id ti = r \<and> task_id ti = t \<and> map_index ti = mi \<and> state ti = None"
    for ti
  proof -
    from that have "ti \<in> set ?live" by simp
    then have "ti \<in> set (?hist @ ?live)" by simp
    then have ne: "?hist @ ?live \<noteq> []" by (metis empty_iff empty_set)
    show ?thesis
      unfolding res using ne \<open>ti \<in> set (?hist @ ?live)\<close> by simp
  qed
  with res show ?thesis
    unfolding Let_def by blast
qed

theorem get_task_instance_tries_rows_witness:
  "get_task_instance_tries ''d'' ''r2'' ''t'' ex_session (- 1) =
     Inr \<lparr>task_instances = [ex_ti ''r2'' ''t'' (- 1) (Some FAILED) 1], total_entries = 1\<rparr>
   \<and> get_task_instance_tries ''d'' ''r1'' ''m'' ex_session 1 =
     Inr \<lparr>task_instances = [ex_ti ''r1'' ''m'' 1 None 0], total_entries = 1\<rparr>
   \<and> get_task_instance_tries ''d'' ''r1'' ''m'' ex_session 7 =
     Inl (HTTPException HTTP_404_NOT_FOUND (TaskInstanceNotFound ''d'' ''r1'' ''m'' (Some 7)))"
  using get_task_instance_tries_rows [of "''d''" "''r2''" "''t''" "- 1" ex_session]
    get_task_instance_tries_rows [of "''d''" "''r1''" "''m''" 1 ex_session]
    get_task_instance_tries_rows [of "''d''" "''r1''" "''m''" 7 ex_session]
  by (simp add: ex_defs Let_def)

section \<open>The mapped instances of a task\<close>


lemma paginated_select_Nil: "paginated_select [] filters order_by offset limit = ([], 0)"
  by (simp add: paginated_select_def)

lemma get_mapped_task_instances_no_rows:
  "get_mapped_task_instances_query d r t s = [] \<Longrightarrow>
     get_mapped_task_instances d r t dag_bag filters order_by offset limit s =
       (case check_task_is_mapped d r t dag_bag s of
          Inl e \<Rightarrow> Inl e
        | Inr _ \<Rightarrow> Inr \<lparr>task_instances = [], total_entries = 0\<rparr>)"
  by (simp add: get_mapped_task_instances_def paginated_select_Nil split: sum.splits)

text \<open>
  C3. When the query for the mapped instances of a task finds no row, the answer is
  decided by the task definition in the dag resolved for the run (the dag of the run, or
  the latest version when the run does not exist): an unknown task id is a 404 "task id
  not found", a known task that declares no expansion is a 404 "not mapped", and a known
  task that declares expansion gives the empty collection with a total of zero, not an
  error.
\<close>

theorem get_mapped_task_instances_zero_rows:
  assumes "get_mapped_task_instances_query d r t s = []"
    and "(case select_dag_run s d r of
            Some dag_run \<Rightarrow> get_dag_for_run dag_bag (Some dag_run) s
          | None \<Rightarrow> get_latest_version_of_dag dag_bag d s) = Some dag"
  shows "get_mapped_task_instances d r t dag_bag filters order_by offset limit s =
           (case get_task dag t of
              None \<Rightarrow> Inl (HTTPException HTTP_404_NOT_FOUND (TaskIdNotFound t))
            | Some task \<Rightarrow>
                if needs_expansion task then Inr \<lparr>task_instances = [], total_entries = 0\<rparr>
                else Inl (HTTPException HTTP_404_NOT_FOUND (TaskIdNotMapped t)))"
proof -
  have "check_task_is_mapped d r t dag_bag s =
          (case get_task dag t of
             None \<Rightarrow> Inl (HTTPException HTTP_404_NOT_FOUND (TaskIdNotFound t))
           | Some task \<Rightarrow>
               if needs_expansion task then Inr ()
               else Inl (HTTPException HTTP_404_NOT_FOUND (TaskIdNotMapped t)))"
    using assms(2) by (simp add: check_task_is_mapped_def split: option.splits)
  then show ?thesis
    using assms(1) by (simp add: get_mapped_task_instances_no_rows split: option.splits)
qed


lemma ex_mapped_dag:
  "(case select_dag_run ex_session ''d'' ''r1'' of
            Some dag_run \<Rightarrow> get_dag_for_run ex_dag_bag (Some dag_run) ex_session
          | None \<Rightarrow> get_latest_version_of_dag ex_dag_bag ''d'' ex_session) = Some ex_dag"
  by (simp add: select_dag_run_def scalar_def ex_session_def ex_run1_def ex_run2_def ex_dag_bag_def)

theorem get_mapped_task_instances_zero_rows_witness:
  "get_mapped_task_instances_query ''d'' ''r1'' ''e'' ex_session = []
   \<and> get_mapped_task_instances ''d'' ''r1'' ''e'' ex_dag_bag [] map_index 0 10 ex_session
       = Inr \<lparr>task_instances = [], total_entries = 0\<rparr>
   \<and> get_mapped_task_instances ''d'' ''r1'' ''t'' ex_dag_bag [] map_index 0 10 ex_session
       = Inl (HTTPException HTTP_404_NOT_FOUND (TaskIdNotMapped ''t''))
   \<and> get_mapped_task_instances ''d'' ''r1'' ''zz'' ex_dag_bag [] map_index 0 10 ex_session
       = Inl (HTTPException HTTP_404_NOT_FOUND (TaskIdNotFound ''zz''))"
proof -
  have q: "get_mapped_task_instances_query ''d'' ''r1'' ''e'' ex_session = []"
    "get_mapped_task_instances_query ''d'' ''r1'' ''t'' ex_session = []"
    "get_mapped_task_instances_query ''d'' ''r1'' ''zz'' ex_session = []"
    by (simp_all add: get_mapped_task_instances_query_def join_dag_run_def ex_session_def ex_ti_def)
  show ?thesis
    using get_mapped_task_instances_zero_rows [OF q(1) ex_mapped_dag, of "[]" map_index 0 10]
      get_mapped_task_instances_zero_rows [OF q(2) ex_mapped_dag, of "[]" map_index 0 10]
      get_mapped_task_instances_zero_rows [OF q(3) ex_mapped_dag, of "[]" map_index 0 10]
      q(1)
    by (simp add: get_task_def ex_dag_def)
qed

section \<open>The dependencies of a task instance\<close>



lemma get_task_instance_dependencies_progressed:
  assumes "filter (\<lambda>ti. dag_id ti = d \<and> run_id ti = r \<and> task_id ti = t \<and> map_index ti = mi) (tis s) = [ti]"
    and "state ti \<noteq> None" and "state ti \<noteq> Some SCHEDULED"
  shows "get_task_instance_dependencies deps d r t s dag_bag mi = Inr \<lparr>dependencies = []\<rparr>"
  using assms by (auto simp: get_task_instance_dependencies_def one_or_none_def)

lemma get_task_instance_dependencies_differs:
  assumes "get_task_instance_dependencies deps d r t s dag_bag mi
             \<noteq> get_task_instance_dependencies deps' d r t s dag_bag' mi"
  shows "\<exists>ti. filter (\<lambda>ti. dag_id ti = d \<and> run_id ti = r \<and> task_id ti = t \<and> map_index ti = mi) (tis s) = [ti]
              \<and> (state ti = None \<or> state ti = Some SCHEDULED)"
proof (rule ccontr)
  assume no: "\<not> ?thesis"
  let ?q = "filter (\<lambda>ti. dag_id ti = d \<and> run_id ti = r \<and> task_id ti = t \<and> map_index ti = mi) (tis s)"
  have "get_task_instance_dependencies deps d r t s dag_bag mi
          = get_task_instance_dependencies deps' d r t s dag_bag' mi"
  proof (cases ?q)
    case Nil
    then show ?thesis by (simp add: get_task_instance_dependencies_def one_or_none_def)
  next
    case (Cons ti rest)
    show ?thesis
    proof (cases rest)
      case Nil
      with Cons no have "state ti \<noteq> None" "state ti \<noteq> Some SCHEDULED" by auto
      with Cons Nil show ?thesis
        by (simp add: get_task_instance_dependencies_progressed)
    next
      case (Cons b rest')
      with \<open>?q = ti # rest\<close> show ?thesis
        by (simp add: get_task_instance_dependencies_def one_or_none_def)
    qed
  qed
  with assms show False by simp
qed

text \<open>
  C4. For a task instance whose state is neither \<^verbatim>\<open>none\<close> nor \<^verbatim>\<open>scheduled\<close> the route
  returns the empty dependency list whatever the policy set and the dag bag are: no policy
  is evaluated. Conversely, two policy sets (or dag bags) can only lead to different
  answers for a task instance whose state is \<^verbatim>\<open>none\<close> or \<^verbatim>\<open>scheduled\<close>.
\<close>

theorem get_task_instance_dependencies_short_circuit:
  "(\<forall>ti. filter (\<lambda>ti. dag_id ti = d \<and> run_id ti = r \<and> task_id ti = t \<and> map_index ti = mi) (tis s) = [ti]
          \<and> state ti \<noteq> None \<and> state ti \<noteq> Some SCHEDULED \<longrightarrow>
          (\<forall>deps dag_bag. get_task_instance_dependencies deps d r t s dag_bag mi
                            = Inr \<lparr>dependencies = []\<rparr>))
   \<and> (\<forall>deps deps' dag_bag dag_bag'.
         get_task_instance_dependencies deps d r t s dag_bag mi
           \<noteq> get_task_instance_dependencies deps' d r t s dag_bag' mi \<longrightarrow>
         (\<exists>ti. filter (\<lambda>ti. dag_id ti = d \<and> run_id ti = r \<and> task_id ti = t \<and> map_index ti = mi) (tis s) = [ti]
               \<and> (state ti = None \<or> state ti = Some SCHEDULED)))"
  using get_task_instance_dependencies_progressed [of d r t mi s]
    get_task_instance_dependencies_differs [of _ d r t s _ mi]
  by blast


theorem get_task_instance_dependencies_short_circuit_witness:
  "filter (\<lambda>ti. dag_id ti = ''d'' \<and> run_id ti = ''r1'' \<and> task_id ti = ''m'' \<and> map_index ti = 0)
          (tis ex_session) = [ex_ti ''r1'' ''m'' 0 (Some RUNNING) 1]
   \<and> get_task_instance_dependencies [ex_pool_dep, ex_passing_dep, ex_paused_dep]
        ''d'' ''r1'' ''m'' ex_session ex_dag_bag 0 = Inr \<lparr>dependencies = []\<rparr>"
proof -
  have q: "filter (\<lambda>ti. dag_id ti = ''d'' \<and> run_id ti = ''r1'' \<and> task_id ti = ''m'' \<and> map_index ti = 0)
          (tis ex_session) = [ex_ti ''r1'' ''m'' 0 (Some RUNNING) 1]"
    by (simp add: ex_session_def ex_ti_def)
  have st: "state (ex_ti ''r1'' ''m'' 0 (Some RUNNING) 1) \<noteq> None
            \<and> state (ex_ti ''r1'' ''m'' 0 (Some RUNNING) 1) \<noteq> Some SCHEDULED"
    by (simp add: ex_ti_def)
  show ?thesis
    using get_task_instance_dependencies_short_circuit [of "''d''" "''r1''" "''m''" 0 ex_session] q st
    by blast
qed


subsection \<open>The order of the result\<close>

lemma get_task_instance_dependencies_shape:
  "(\<exists>e. \<forall>deps. get_task_instance_dependencies deps d r t s dag_bag mi = Inl e)
   \<or> (\<forall>deps. get_task_instance_dependencies deps d r t s dag_bag mi = Inr \<lparr>dependencies = []\<rparr>)
   \<or> (\<exists>ti task. \<forall>deps. get_task_instance_dependencies deps d r t s dag_bag mi =
          Inr \<lparr>dependencies = sort_key name (get_failed_dep_statuses ti task deps s)\<rparr>)"
proof -
  let ?q = "filter (\<lambda>ti. dag_id ti = d \<and> run_id ti = r \<and> task_id ti = t \<and> map_index ti = mi) (tis s)"
  show ?thesis
  proof (cases "one_or_none ?q")
    case (Inl e)
    then show ?thesis
      by (simp add: get_task_instance_dependencies_def)
  next
    case (Inr row)
    show ?thesis
    proof (cases row)
      case None
      with Inr show ?thesis
        by (simp add: get_task_instance_dependencies_def)
    next
      case (Some ti)
      note found = Inr [unfolded Some]
      show ?thesis
      proof (cases "state ti = None \<or> state ti = Some SCHEDULED")
        case False
        with found show ?thesis
          by (auto simp: get_task_instance_dependencies_def)
      next
        case True
        show ?thesis
        proof (cases "get_dag_for_run dag_bag (select_dag_run s (dag_id ti) (run_id ti)) s")
          case None
          with found True show ?thesis
            by (auto simp: get_task_instance_dependencies_def)
        next
          case (Some dag)
          note dag = this
          show ?thesis
          proof (cases "get_task dag (task_id ti)")
            case None
            with found True dag show ?thesis
              by (auto simp: get_task_instance_dependencies_def)
          next
            case (Some task)
            with found True dag
            have "\<forall>deps. get_task_instance_dependencies deps d r t s dag_bag mi =
                    Inr \<lparr>dependencies = sort_key name (get_failed_dep_statuses ti task deps s)\<rparr>"
              by (auto simp: get_task_instance_dependencies_def)
            then show ?thesis by blast
          qed
        qed
      qed
    qed
  qed
qed

lemma mset_get_failed_dep_statuses:
  "mset deps' = mset deps \<Longrightarrow>
     mset (get_failed_dep_statuses ti task deps' s) = mset (get_failed_dep_statuses ti task deps s)"
  by (simp add: get_failed_dep_statuses_def map_filter_def)

lemma name_sort_key: "map name (sort_key name xs) = sort (map name xs)"
  by (rule properties_for_sort [symmetric]) simp_all

lemma sort_names_perm:
  assumes "mset xs' = mset xs"
  shows "map name (sort_key name xs') = map name (sort_key name xs)"
proof -
  have "sort (map name xs') = sort (map name xs)"
    by (rule properties_for_sort) (simp_all add: assms)
  then show ?thesis
    by (simp add: name_sort_key)
qed

lemma inj_on_name_failed:
  assumes "distinct (map dep_name deps)"
  shows "inj_on name (set (get_failed_dep_statuses ti task deps s))"
proof (rule inj_onI)
  fix x y
  assume x: "x \<in> set (get_failed_dep_statuses ti task deps s)"
    and y: "y \<in> set (get_failed_dep_statuses ti task deps s)"
    and eq: "name x = name y"
  from x obtain p where p: "p \<in> set deps"
    "x = \<lparr>name = dep_name p, reason = the (evaluate p ti task s)\<rparr>"
    by (auto simp: get_failed_dep_statuses_def map_filter_def)
  from y obtain q where q: "q \<in> set deps"
    "y = \<lparr>name = dep_name q, reason = the (evaluate q ti task s)\<rparr>"
    by (auto simp: get_failed_dep_statuses_def map_filter_def)
  from eq p q have "dep_name p = dep_name q" by simp
  moreover from assms have "inj_on dep_name (set deps)"
    by (simp add: distinct_map)
  ultimately have "p = q"
    using p(1) q(1) by (auto dest: inj_onD)
  with p q show "x = y" by simp
qed

lemma sorted_failed_perm:
  assumes "mset deps' = mset deps" and "distinct (map dep_name deps)"
  shows "sort_key name (get_failed_dep_statuses ti task deps' s)
           = sort_key name (get_failed_dep_statuses ti task deps s)"
proof (rule sort_key_eq_sort_key)
  show "mset (get_failed_dep_statuses ti task deps' s) = mset (get_failed_dep_statuses ti task deps s)"
    by (rule mset_get_failed_dep_statuses) (rule assms(1))
  from assms(1) have "mset (map dep_name deps') = mset (map dep_name deps)"
    by simp
  then have "distinct (map dep_name deps') \<longleftrightarrow> distinct (map dep_name deps)"
    by (rule mset_eq_imp_distinct_iff)
  with assms(2) have "distinct (map dep_name deps')"
    by blast
  then show "inj_on name (set (get_failed_dep_statuses ti task deps' s))"
    by (rule inj_on_name_failed)
qed


text \<open>
  C5. Every dependency list the route returns is sorted in ascending order of the
  dependency name. Evaluating the same policies in another order gives the same statuses
  with the same sequence of names, and, the policies being named apart, the very same
  list: the order of the output does not depend on the order of evaluation.
\<close>

theorem get_task_instance_dependencies_sorted:
  "(\<forall>resp. get_task_instance_dependencies deps d r t s dag_bag mi = Inr resp \<longrightarrow>
       sorted (map name (dependencies resp)))
   \<and> (\<forall>deps' resp resp'. mset deps' = mset deps
         \<and> get_task_instance_dependencies deps d r t s dag_bag mi = Inr resp
         \<and> get_task_instance_dependencies deps' d r t s dag_bag mi = Inr resp' \<longrightarrow>
         map name (dependencies resp') = map name (dependencies resp)
         \<and> mset (dependencies resp') = mset (dependencies resp))
   \<and> (\<forall>deps'. mset deps' = mset deps \<and> distinct (map dep_name deps) \<longrightarrow>
         get_task_instance_dependencies deps' d r t s dag_bag mi
           = get_task_instance_dependencies deps d r t s dag_bag mi)"
proof -
  consider (err) e where "\<forall>deps. get_task_instance_dependencies deps d r t s dag_bag mi = Inl e"
    | (none) "\<forall>deps. get_task_instance_dependencies deps d r t s dag_bag mi = Inr \<lparr>dependencies = []\<rparr>"
    | (eval) ti task where "\<forall>deps. get_task_instance_dependencies deps d r t s dag_bag mi =
          Inr \<lparr>dependencies = sort_key name (get_failed_dep_statuses ti task deps s)\<rparr>"
    using get_task_instance_dependencies_shape [of d r t s dag_bag mi] by blast
  then show ?thesis
  proof cases
    case err
    then show ?thesis by simp
  next
    case none
    then show ?thesis by simp
  next
    case eval
    have 1: "\<forall>resp. get_task_instance_dependencies deps d r t s dag_bag mi = Inr resp \<longrightarrow>
       sorted (map name (dependencies resp))"
      using eval by auto
    have 2: "\<forall>deps' resp resp'. mset deps' = mset deps
         \<and> get_task_instance_dependencies deps d r t s dag_bag mi = Inr resp
         \<and> get_task_instance_dependencies deps' d r t s dag_bag mi = Inr resp' \<longrightarrow>
         map name (dependencies resp') = map name (dependencies resp)
         \<and> mset (dependencies resp') = mset (dependencies resp)"
    proof (intro allI impI)
      fix deps' resp resp'
      assume h: "mset deps' = mset deps
         \<and> get_task_instance_dependencies deps d r t s dag_bag mi = Inr resp
         \<and> get_task_instance_dependencies deps' d r t s dag_bag mi = Inr resp'"
      then have m: "mset (get_failed_dep_statuses ti task deps' s)
                  = mset (get_failed_dep_statuses ti task deps s)"
        by (intro mset_get_failed_dep_statuses) simp
      from h eval have resp: "dependencies resp = sort_key name (get_failed_dep_statuses ti task deps s)"
        and resp': "dependencies resp' = sort_key name (get_failed_dep_statuses ti task deps' s)"
        by auto
      show "map name (dependencies resp') = map name (dependencies resp)
         \<and> mset (dependencies resp') = mset (dependencies resp)"
        unfolding resp resp' using m sort_names_perm [OF m] by simp
    qed
    have 3: "\<forall>deps'. mset deps' = mset deps \<and> distinct (map dep_name deps) \<longrightarrow>
         get_task_instance_dependencies deps' d r t s dag_bag mi
           = get_task_instance_dependencies deps d r t s dag_bag mi"
    proof (intro allI impI)
      fix deps'
      assume "mset deps' = mset deps \<and> distinct (map dep_name deps)"
      then have "sort_key name (get_failed_dep_statuses ti task deps' s)
           = sort_key name (get_failed_dep_statuses ti task deps s)"
        by (intro sorted_failed_perm) simp_all
      with eval show "get_task_instance_dependencies deps' d r t s dag_bag mi
           = get_task_instance_dependencies deps d r t s dag_bag mi"
        by simp
    qed
    from 1 2 3 show ?thesis by blast
  qed
qed



theorem get_task_instance_dependencies_sorted_witness:
  "mset [ex_paused_dep, ex_passing_dep, ex_pool_dep] = mset [ex_pool_dep, ex_passing_dep, ex_paused_dep]
   \<and> distinct (map dep_name [ex_pool_dep, ex_passing_dep, ex_paused_dep])
   \<and> get_task_instance_dependencies [ex_pool_dep, ex_passing_dep, ex_paused_dep]
        ''d'' ''r1'' ''m'' ex_session ex_dag_bag 1
       = Inr \<lparr>dependencies = [\<lparr>name = ''dag paused'', reason = ''the dag is paused''\<rparr>,
                               \<lparr>name = ''pool slots'', reason = ''no free slot''\<rparr>]\<rparr>
   \<and> get_task_instance_dependencies [ex_paused_dep, ex_passing_dep, ex_pool_dep]
        ''d'' ''r1'' ''m'' ex_session ex_dag_bag 1
       = Inr \<lparr>dependencies = [\<lparr>name = ''dag paused'', reason = ''the dag is paused''\<rparr>,
                               \<lparr>name = ''pool slots'', reason = ''no free slot''\<rparr>]\<rparr>
   \<and> sorted [''dag paused'', ''pool slots'']"
proof -
  have m: "mset [ex_paused_dep, ex_passing_dep, ex_pool_dep] = mset [ex_pool_dep, ex_passing_dep, ex_paused_dep]"
    by (simp add: add.commute)
  have dn: "distinct (map dep_name [ex_pool_dep, ex_passing_dep, ex_paused_dep])"
    by (simp add: ex_defs)
  have r: "get_task_instance_dependencies [ex_pool_dep, ex_passing_dep, ex_paused_dep]
        ''d'' ''r1'' ''m'' ex_session ex_dag_bag 1
       = Inr \<lparr>dependencies = [\<lparr>name = ''dag paused'', reason = ''the dag is paused''\<rparr>,
                               \<lparr>name = ''pool slots'', reason = ''no free slot''\<rparr>]\<rparr>"
    by (simp add: get_task_instance_dependencies_def one_or_none_def select_dag_run_def scalar_def
        get_task_def get_failed_dep_statuses_def map_filter_def ex_defs)
  note t = get_task_instance_dependencies_sorted
      [of "[ex_pool_dep, ex_passing_dep, ex_paused_dep]" "''d''" "''r1''" "''m''" ex_session ex_dag_bag 1]
  have "sorted (map name (dependencies
          \<lparr>dependencies = [\<lparr>name = ''dag paused'', reason = ''the dag is paused''\<rparr>,
                           \<lparr>name = ''pool slots'', reason = ''no free slot''\<rparr>]\<rparr>))"
    using t [THEN conjunct1, rule_format, OF r] .
  then have s: "sorted [''dag paused'', ''pool slots'']"
    by simp
  have "get_task_instance_dependencies [ex_paused_dep, ex_passing_dep, ex_pool_dep]
        ''d'' ''r1'' ''m'' ex_session ex_dag_bag 1
      = get_task_instance_dependencies [ex_pool_dep, ex_passing_dep, ex_paused_dep]
        ''d'' ''r1'' ''m'' ex_session ex_dag_bag 1"
    using t [THEN conjunct2, THEN conjunct2, rule_format, of "[ex_paused_dep, ex_passing_dep, ex_pool_dep]"]
      m dn by blast
  with m dn r s show ?thesis
    by simp
qed

section \<open>Clearing task instances\<close>

subsection \<open>The shape of the route\<close>


lemma resolve_dag_run_past_or_future:
  assumes "dag_run_id body = Some rid" and "include_past body \<or> include_future body"
  shows "resolve_dag_run d dag_bag body dag s =
     (case select_dag_run s d rid of
        None \<Rightarrow> Inl (HTTPException HTTP_404_NOT_FOUND (DagRunNotFound rid d))
      | Some dag_run \<Rightarrow>
          (case get_dag_for_run dag_bag (Some dag_run) s of
             None \<Rightarrow> Inl (HTTPException HTTP_404_NOT_FOUND (DagNotFound d))
           | Some dag' \<Rightarrow> Inl (HTTPException HTTP_400_BAD_REQUEST PastFutureWithDagRunId)))"
  using assms by (simp add: resolve_dag_run_def split: option.splits)

lemma resolve_dag_run_dry_run:
  "resolve_dag_run d dag_bag (body\<lparr>dry_run := x\<rparr>) dag s =
     (case resolve_dag_run d dag_bag body dag s of
        Inl e \<Rightarrow> Inl e
      | Inr (dag', body') \<Rightarrow> Inr (dag', body'\<lparr>dry_run := x\<rparr>))"
  by (simp add: resolve_dag_run_def split: option.splits)

lemma expand_task_ids_dry_run:
  "expand_task_ids partial_subset (body\<lparr>dry_run := x\<rparr>) dag = expand_task_ids partial_subset body dag"
  by (simp add: expand_task_ids_def split: option.splits)

lemma expand_task_ids_dates:
  "expand_task_ids partial_subset (body\<lparr>start_date := x\<rparr>) dag = expand_task_ids partial_subset body dag"
  "expand_task_ids partial_subset (body\<lparr>end_date := y\<rparr>) dag = expand_task_ids partial_subset body dag"
  by (simp_all add: expand_task_ids_def split: option.splits)

lemma dag_clear_preview:
  "dry_run params \<Longrightarrow> snd (dag_clear retry_equivalent dag params scope s) = s"
  by (simp add: dag_clear_def Let_def)


lemma resolve_dag_run_Inr:
  assumes "resolve_dag_run d dag_bag body dag s = Inr (dag1, body1)"
  shows "(dag_run_id body = None \<and> dag1 = dag \<and> body1 = body)
       \<or> (\<exists>rid dag_run. dag_run_id body = Some rid \<and> select_dag_run s d rid = Some dag_run
             \<and> get_dag_for_run dag_bag (Some dag_run) s = Some dag1
             \<and> \<not> include_past body \<and> \<not> include_future body
             \<and> body1 = body\<lparr>start_date := logical_date dag_run, end_date := logical_date dag_run\<rparr>)"
  using assms by (auto simp: resolve_dag_run_def split: option.splits if_splits)

lemma dag_clear_dry_run:
  "dag_clear retry_equivalent dag
     \<lparr>dry_run = True, task_ids = ids, run_on_latest_version = v, only_failed = f, only_running = g\<rparr>
     scope s =
   (if f \<and> g then (Inl (HTTPException HTTP_400_BAD_REQUEST OnlyFailedAndOnlyRunning), s)
    else (Inr (filter (affected_by retry_equivalent dag
                 \<lparr>dry_run = True, task_ids = ids, run_on_latest_version = v,
                  only_failed = f, only_running = g\<rparr> scope s) (tis s)), s))"
  by (simp add: dag_clear_def)

lemma post_clear_task_instances_resolved:
  assumes latest: "get_latest_version_of_dag dag_bag d s = Some dag"
    and res: "resolve_dag_run d dag_bag body dag s = Inr (dag1, body1)"
    and exp: "expand_task_ids partial_subset body dag1 = (dag2, ids)"
  shows "post_clear_task_instances partial_subset retry_equivalent d dag_bag body s =
     (if only_failed body \<and> only_running body
      then (Inl (HTTPException HTTP_400_BAD_REQUEST OnlyFailedAndOnlyRunning), s)
      else
        (let affected =
               filter (affected_by retry_equivalent dag2
                         \<lparr>dry_run = True, task_ids = ids,
                          run_on_latest_version = run_on_latest_version body,
                          only_failed = only_failed body, only_running = only_running body\<rparr>
                         (case dag_run_id body of
                            Some rid \<Rightarrow> ByRunId rid
                          | None \<Rightarrow> ByDates (if include_past body then None else start_date body)
                                             (if include_future body then None else end_date body))
                         s) (tis s)
         in if dry_run body
            then (Inr \<lparr>task_instances = affected, total_entries = length affected\<rparr>, s)
            else (Inr \<lparr>task_instances = map reset_try_fields affected,
                       total_entries = length affected\<rparr>,
                  clear_task_instances affected s
                    (if reset_dag_runs body then Some DR_QUEUED else None)
                    (run_on_latest_version body))))"
  using resolve_dag_run_Inr [OF res]
proof (elim disjE conjE exE)
  assume "dag_run_id body = None" "dag1 = dag" "body1 = body"
  with latest res exp show ?thesis
    unfolding post_clear_task_instances_def
    by (cases "include_past body"; cases "include_future body"; cases "dry_run body";
        cases "only_failed body"; cases "only_running body";
        simp add: dag_clear_dry_run expand_task_ids_dates Let_def)
next
  fix rid dag_run
  assume "dag_run_id body = Some rid" "\<not> include_past body" "\<not> include_future body"
    "body1 = body\<lparr>start_date := logical_date dag_run, end_date := logical_date dag_run\<rparr>"
  with latest res exp show ?thesis
    unfolding post_clear_task_instances_def
    by (cases "dry_run body"; cases "only_failed body"; cases "only_running body";
        simp add: dag_clear_dry_run expand_task_ids_dates Let_def)
qed


lemma post_clear_task_instances_unresolved:
  "get_latest_version_of_dag dag_bag d s = None \<Longrightarrow>
     post_clear_task_instances partial_subset retry_equivalent d dag_bag body s =
       (Inl (HTTPException HTTP_404_NOT_FOUND (DagNotFound d)), s)"
  "get_latest_version_of_dag dag_bag d s = Some dag \<Longrightarrow>
   resolve_dag_run d dag_bag body dag s = Inl e \<Longrightarrow>
     post_clear_task_instances partial_subset retry_equivalent d dag_bag body s = (Inl e, s)"
  by (simp_all add: post_clear_task_instances_def)

lemma resolve_dag_run_errors:
  "resolve_dag_run d dag_bag body dag s = Inl e \<Longrightarrow>
     (\<exists>m. e = HTTPException HTTP_404_NOT_FOUND m) \<or> e = HTTPException HTTP_400_BAD_REQUEST PastFutureWithDagRunId"
  by (auto simp: resolve_dag_run_def split: option.splits if_splits)

subsection \<open>What the reset does to the store\<close>

lemma same_key_reset [simp]: "same_key (reset_try_fields row) ti = same_key row ti"
  by (simp add: same_key_def reset_try_fields_def)

lemma reset_try_fields_idem [simp]: "reset_try_fields (reset_try_fields row) = reset_try_fields row"
  by (simp add: reset_try_fields_def)

lemma tis_archive [simp]: "tis (archive ti s) = tis s"
  by (simp add: archive_def)

lemma dag_runs_archive [simp]: "dag_runs (archive ti s) = dag_runs s"
  by (simp add: archive_def)

lemma tis_clear_one:
  "tis (clear_one dag_run_state ti s) =
     map (\<lambda>row. if same_key row ti then reset_try_fields row else row) (tis s)"
  by (simp add: clear_one_def Let_def split: option.split)

lemma dag_runs_clear_one:
  "dag_runs (clear_one dag_run_state ti s) =
     (case dag_run_state of
        None \<Rightarrow> dag_runs s
      | Some st \<Rightarrow> map (\<lambda>dr. if owns dr ti then dr\<lparr>dagrun_state := st\<rparr> else dr) (dag_runs s))"
  by (simp add: clear_one_def Let_def split: option.split)

lemma tis_clear_task_instances:
  "tis (clear_task_instances affected s dag_run_state v) =
     map (\<lambda>row. if list_ex (\<lambda>ti. same_key row ti) affected then reset_try_fields row else row) (tis s)"
  unfolding clear_task_instances_def
proof (induction affected arbitrary: s)
  case Nil
  show ?case by simp
next
  case (Cons ti affected)
  show ?case
    by (simp add: Cons.IH tis_clear_one) 
qed

lemma owns_dagrun_state [simp]: "owns (dr\<lparr>dagrun_state := st\<rparr>) ti = owns dr ti"
  by (simp add: owns_def)

lemma dag_runs_clear_task_instances_None:
  "dag_runs (clear_task_instances affected s None v) = dag_runs s"
  unfolding clear_task_instances_def
  by (induction affected arbitrary: s) (simp_all add: dag_runs_clear_one)

lemma dag_runs_clear_task_instances_Some:
  "dag_runs (clear_task_instances affected s (Some st) v) =
     map (\<lambda>dr. if list_ex (\<lambda>ti. owns dr ti) affected then dr\<lparr>dagrun_state := st\<rparr> else dr) (dag_runs s)"
  unfolding clear_task_instances_def
proof (induction affected arbitrary: s)
  case Nil
  show ?case by simp
next
  case (Cons ti affected)
  show ?case
    by (simp add: Cons.IH dag_runs_clear_one)
qed

subsection \<open>A run id with \<^verbatim>\<open>include_past\<close> or \<^verbatim>\<open>include_future\<close>\<close>


text \<open>
  C2, as the route has it. A request that names a dag run and sets \<^verbatim>\<open>include_past\<close> or
  \<^verbatim>\<open>include_future\<close> always fails and leaves the store as it was, whatever the clearing
  engine and the subset operation are. The failure is the 400 "cannot use include_past
  or include_future when dag_run_id is provided" once the dag, the named run and the dag
  version of the run have been found; a dag or a run that is not found is reported first,
  as a 404.
\<close>

theorem post_clear_task_instances_run_id_with_past_or_future:
  assumes "dag_run_id body = Some rid" and "include_past body \<or> include_future body"
  shows "(\<exists>e. post_clear_task_instances partial_subset retry_equivalent d dag_bag body s = (Inl e, s))
   \<and> post_clear_task_instances partial_subset retry_equivalent d dag_bag body s =
     (case get_latest_version_of_dag dag_bag d s of
        None \<Rightarrow> (Inl (HTTPException HTTP_404_NOT_FOUND (DagNotFound d)), s)
      | Some dag \<Rightarrow>
          (case select_dag_run s d rid of
             None \<Rightarrow> (Inl (HTTPException HTTP_404_NOT_FOUND (DagRunNotFound rid d)), s)
           | Some dag_run \<Rightarrow>
               (case get_dag_for_run dag_bag (Some dag_run) s of
                  None \<Rightarrow> (Inl (HTTPException HTTP_404_NOT_FOUND (DagNotFound d)), s)
                | Some dag' \<Rightarrow>
                    (Inl (HTTPException HTTP_400_BAD_REQUEST PastFutureWithDagRunId), s))))"
  unfolding post_clear_task_instances_def resolve_dag_run_past_or_future [OF assms]
  by (simp split: option.splits)

theorem post_clear_task_instances_run_id_with_past_or_future_witness:
  "dag_run_id (ex_body\<lparr>include_past := True\<rparr>) = Some ''r1''
   \<and> include_past (ex_body\<lparr>include_past := True\<rparr>)
   \<and> post_clear_task_instances ex_partial_subset ex_retry_equivalent ''d'' ex_dag_bag
        (ex_body\<lparr>include_past := True\<rparr>) ex_session
       = (Inl (HTTPException HTTP_400_BAD_REQUEST PastFutureWithDagRunId), ex_session)"
proof -
  have h: "dag_run_id (ex_body\<lparr>include_past := True\<rparr>) = Some ''r1''"
    "include_past (ex_body\<lparr>include_past := True\<rparr>) \<or> include_future (ex_body\<lparr>include_past := True\<rparr>)"
    by (simp_all add: ex_body_def)
  have "select_dag_run ex_session ''d'' ''r1'' = Some ex_run1"
    by (simp add: select_dag_run_def scalar_def ex_session_def ex_run1_def ex_run2_def)
  then show ?thesis
    using post_clear_task_instances_run_id_with_past_or_future
      [OF h, of ex_partial_subset ex_retry_equivalent "''d''" ex_dag_bag ex_session]
    by (simp add: ex_body_def ex_dag_bag_def ex_run1_def)
qed

text \<open>
  The claim as written, a 400 for every such request, fails for a run that does not
  exist: the route answers 404.
\<close>

theorem post_clear_task_instances_run_id_with_past_counterexample:
  "dag_run_id (ex_body\<lparr>dag_run_id := Some ''r9'', include_past := True\<rparr>) \<noteq> None
   \<and> include_past (ex_body\<lparr>dag_run_id := Some ''r9'', include_past := True\<rparr>)
   \<and> post_clear_task_instances ex_partial_subset ex_retry_equivalent ''d'' ex_dag_bag
        (ex_body\<lparr>dag_run_id := Some ''r9'', include_past := True\<rparr>) ex_session
       = (Inl (HTTPException HTTP_404_NOT_FOUND (DagRunNotFound ''r9'' ''d'')), ex_session)
   \<and> HTTPException HTTP_404_NOT_FOUND (DagRunNotFound ''r9'' ''d'')
       \<noteq> HTTPException HTTP_400_BAD_REQUEST PastFutureWithDagRunId"
  by (simp add: post_clear_task_instances_def resolve_dag_run_def select_dag_run_def scalar_def
      ex_body_def ex_dag_bag_def ex_session_def ex_run1_def ex_run2_def)


subsection \<open>\<^verbatim>\<open>only_failed\<close> with \<^verbatim>\<open>only_running\<close>\<close>


text \<open>
  C6, as the route has it. A request with both \<^verbatim>\<open>only_failed\<close> and \<^verbatim>\<open>only_running\<close> set
  always fails with a 400 or a 404 and leaves the store as it was: no task instance is
  cleared and neither flag wins. The clearing engine refuses the combination with the
  400 of the invalid request in every mode, so this is the route's answer whenever the
  dag and the run scope of the request resolve; a dag or a run that is not found, and a
  run id combined with \<^verbatim>\<open>include_past\<close> or \<^verbatim>\<open>include_future\<close>, are reported first.
\<close>

theorem post_clear_task_instances_only_failed_and_only_running:
  assumes "only_failed body" and "only_running body"
  shows "(\<exists>status m. post_clear_task_instances partial_subset retry_equivalent d dag_bag body s
                        = (Inl (HTTPException status m), s)
                     \<and> (status = HTTP_400_BAD_REQUEST \<or> status = HTTP_404_NOT_FOUND))
   \<and> (\<forall>dag dag1 body1.
         get_latest_version_of_dag dag_bag d s = Some dag
         \<and> resolve_dag_run d dag_bag body dag s = Inr (dag1, body1) \<longrightarrow>
         post_clear_task_instances partial_subset retry_equivalent d dag_bag body s
           = (Inl (HTTPException HTTP_400_BAD_REQUEST OnlyFailedAndOnlyRunning), s))
   \<and> (\<forall>dag params scope. only_failed params \<and> only_running params \<longrightarrow>
         dag_clear retry_equivalent dag params scope s
           = (Inl (HTTPException HTTP_400_BAD_REQUEST OnlyFailedAndOnlyRunning), s))"
proof -
  have resolved: "post_clear_task_instances partial_subset retry_equivalent d dag_bag body s
           = (Inl (HTTPException HTTP_400_BAD_REQUEST OnlyFailedAndOnlyRunning), s)"
    if "get_latest_version_of_dag dag_bag d s = Some dag"
      and "resolve_dag_run d dag_bag body dag s = Inr (dag1, body1)" for dag dag1 body1
  proof -
    obtain dag2 ids where "expand_task_ids partial_subset body dag1 = (dag2, ids)"
      by (cases "expand_task_ids partial_subset body dag1")
    from post_clear_task_instances_resolved [OF that this] assms show ?thesis
      by simp
  qed
  have fails: "\<exists>status m. post_clear_task_instances partial_subset retry_equivalent d dag_bag body s
                        = (Inl (HTTPException status m), s)
                     \<and> (status = HTTP_400_BAD_REQUEST \<or> status = HTTP_404_NOT_FOUND)"
  proof (cases "get_latest_version_of_dag dag_bag d s")
    case None
    then show ?thesis
      by (simp add: post_clear_task_instances_unresolved)
  next
    case (Some dag)
    show ?thesis
    proof (cases "resolve_dag_run d dag_bag body dag s")
      case (Inl e)
      with Some resolve_dag_run_errors [OF Inl] show ?thesis
        by (auto simp: post_clear_task_instances_unresolved)
    next
      case (Inr p)
      with Some resolved [of dag "fst p" "snd p"] show ?thesis
        by simp
    qed
  qed
  have engine: "\<forall>dag params scope. only_failed params \<and> only_running params \<longrightarrow>
         dag_clear retry_equivalent dag params scope s
           = (Inl (HTTPException HTTP_400_BAD_REQUEST OnlyFailedAndOnlyRunning), s)"
    by (simp add: dag_clear_def)
  from fails resolved engine show ?thesis
    by blast
qed

theorem post_clear_task_instances_only_failed_and_only_running_witness:
  "only_failed (ex_body\<lparr>only_running := True\<rparr>) \<and> only_running (ex_body\<lparr>only_running := True\<rparr>)
   \<and> post_clear_task_instances ex_partial_subset ex_retry_equivalent ''d'' ex_dag_bag
        (ex_body\<lparr>only_running := True\<rparr>) ex_session
       = (Inl (HTTPException HTTP_400_BAD_REQUEST OnlyFailedAndOnlyRunning), ex_session)"
proof -
  have h: "only_failed (ex_body\<lparr>only_running := True\<rparr>)" "only_running (ex_body\<lparr>only_running := True\<rparr>)"
    by (simp_all add: ex_body_def)
  have l: "get_latest_version_of_dag ex_dag_bag ''d'' ex_session = Some ex_dag"
    by (simp add: ex_dag_bag_def)
  have r: "resolve_dag_run ''d'' ex_dag_bag (ex_body\<lparr>only_running := True\<rparr>) ex_dag ex_session
             = Inr (ex_dag, ex_body\<lparr>only_running := True, start_date := Some 100, end_date := Some 100\<rparr>)"
    by (simp add: resolve_dag_run_def select_dag_run_def scalar_def
      ex_body_def ex_dag_bag_def ex_session_def ex_run1_def ex_run2_def)
  from post_clear_task_instances_only_failed_and_only_running
      [OF h, of ex_partial_subset ex_retry_equivalent "''d''" ex_dag_bag ex_session] l r h
  show ?thesis
    by blast
qed

text \<open>
  The claim as written, the invalid request for every such request, fails for a dag that
  does not exist: the route answers 404 before the flags are looked at.
\<close>

theorem post_clear_task_instances_only_failed_and_only_running_counterexample:
  "only_failed (ex_body\<lparr>only_running := True\<rparr>) \<and> only_running (ex_body\<lparr>only_running := True\<rparr>)
   \<and> post_clear_task_instances ex_partial_subset ex_retry_equivalent ''zz'' ex_dag_bag
        (ex_body\<lparr>only_running := True\<rparr>) ex_session
       = (Inl (HTTPException HTTP_404_NOT_FOUND (DagNotFound ''zz'')), ex_session)
   \<and> HTTP_404_NOT_FOUND \<noteq> HTTP_400_BAD_REQUEST"
  by (simp add: post_clear_task_instances_def ex_body_def ex_dag_bag_def
      HTTP_404_NOT_FOUND_def HTTP_400_BAD_REQUEST_def)

subsection \<open>The date window\<close>


lemma in_window_Some:
  "in_window lo hi (Some x) \<longleftrightarrow> (\<forall>l. lo = Some l \<longrightarrow> l \<le> x) \<and> (\<forall>h. hi = Some h \<longrightarrow> x \<le> h)"
  by (simp add: in_window_def split: option.splits)

lemma in_window_None: "in_window lo hi None \<longleftrightarrow> lo = None \<and> hi = None"
  by (simp add: in_window_def split: option.splits)

lemma affected_by_dates:
  "affected_by retry_equivalent dag
     \<lparr>dry_run = True, task_ids = ids, run_on_latest_version = v, only_failed = f, only_running = g\<rparr>
     (ByDates lo hi) s =
   (\<lambda>ti. dag_id ti = dag_id dag
          \<and> list_ex (\<lambda>dr. owns dr ti \<and> in_window lo hi (logical_date dr)) (dag_runs s)
          \<and> in_task_ids ids ti \<and> in_state_filter retry_equivalent f g ti)"
  by (rule ext) (simp add: affected_by_def in_scope_def)

text \<open>
  C7. For a date-range request (no run id) that reaches the clearing engine, the window
  is \<open>[start_date, end_date]\<close> with the lower bound removed by \<^verbatim>\<open>include_past\<close> and the
  upper bound removed by \<^verbatim>\<open>include_future\<close>. The task instances returned are those of the
  dag whose run has its logical date in that window, narrowed by the task ids and the
  state filter of the request when it has any. A date is in a window when it is not
  below the lower bound, if there is one, and not above the upper bound, if there is
  one; a run without a logical date is only in the window without bounds.
\<close>

theorem post_clear_task_instances_date_range:
  assumes "dag_run_id body = None"
    and "get_latest_version_of_dag dag_bag d s = Some dag"
    and "expand_task_ids partial_subset body dag = (dag2, ids)"
    and "\<not> (only_failed body \<and> only_running body)"
  shows "(let lo = (if include_past body then None else start_date body);
              hi = (if include_future body then None else end_date body);
              affected =
                filter (\<lambda>ti. dag_id ti = dag_id dag2
                          \<and> list_ex (\<lambda>dr. owns dr ti \<and> in_window lo hi (logical_date dr)) (dag_runs s)
                          \<and> in_task_ids ids ti
                          \<and> in_state_filter retry_equivalent (only_failed body) (only_running body) ti)
                       (tis s)
          in fst (post_clear_task_instances partial_subset retry_equivalent d dag_bag body s) =
               Inr \<lparr>task_instances = (if dry_run body then affected else map reset_try_fields affected),
                    total_entries = length affected\<rparr>)
   \<and> (\<forall>lo hi x. in_window lo hi (Some x) \<longleftrightarrow>
          (\<forall>l. lo = Some l \<longrightarrow> l \<le> x) \<and> (\<forall>h. hi = Some h \<longrightarrow> x \<le> h))
   \<and> (\<forall>lo hi. in_window lo hi None \<longleftrightarrow> lo = None \<and> hi = None)"
proof -
  have res: "resolve_dag_run d dag_bag body dag s = Inr (dag, body)"
    using assms(1) by (simp add: resolve_dag_run_def)
  show ?thesis
    using assms(1,4)
    by (cases "dry_run body")
       (simp_all add: post_clear_task_instances_resolved [OF assms(2) res assms(3)] Let_def
          affected_by_dates in_window_Some in_window_None)
qed

theorem post_clear_task_instances_date_range_witness:
  "dag_run_id ex_range_body = None
   \<and> get_latest_version_of_dag ex_dag_bag ''d'' ex_session = Some ex_dag
   \<and> expand_task_ids ex_partial_subset ex_range_body ex_dag = (ex_dag, None)
   \<and> \<not> (only_failed ex_range_body \<and> only_running ex_range_body)
   \<and> fst (post_clear_task_instances ex_partial_subset ex_retry_equivalent ''d'' ex_dag_bag
             ex_range_body ex_session)
       = Inr \<lparr>task_instances = [ex_ti ''r2'' ''t'' (- 1) (Some UP_FOR_RETRY) 2,
                                 ex_ti ''r2'' ''m'' 0 (Some SUCCESS) 1],
              total_entries = 2\<rparr>"
proof -
  have h: "dag_run_id ex_range_body = None"
    "get_latest_version_of_dag ex_dag_bag ''d'' ex_session = Some ex_dag"
    "expand_task_ids ex_partial_subset ex_range_body ex_dag = (ex_dag, None)"
    "\<not> (only_failed ex_range_body \<and> only_running ex_range_body)"
    by (simp_all add: ex_range_body_def ex_body_def ex_dag_bag_def expand_task_ids_def)
  have f: "include_future ex_range_body" "\<not> include_past ex_range_body" "dry_run ex_range_body"
    "start_date ex_range_body = Some 150" "\<not> only_failed ex_range_body"
    "\<not> only_running ex_range_body"
    by (simp_all add: ex_range_body_def ex_body_def)
  have rows: "tis ex_session = [ex_ti ''r1'' ''t'' (- 1) (Some FAILED) 1,
             ex_ti ''r1'' ''m'' 0 (Some RUNNING) 1,
             ex_ti ''r1'' ''m'' 1 None 0,
             ex_ti ''r2'' ''t'' (- 1) (Some UP_FOR_RETRY) 2,
             ex_ti ''r2'' ''m'' 0 (Some SUCCESS) 1]"
    "dag_runs ex_session = [ex_run1, ex_run2]"
    by (simp_all add: ex_session_def)
  from post_clear_task_instances_date_range [OF h, of ex_retry_equivalent, THEN conjunct1]
  have "fst (post_clear_task_instances ex_partial_subset ex_retry_equivalent ''d'' ex_dag_bag
             ex_range_body ex_session)
       = Inr \<lparr>task_instances = [ex_ti ''r2'' ''t'' (- 1) (Some UP_FOR_RETRY) 2,
                                 ex_ti ''r2'' ''m'' 0 (Some SUCCESS) 1],
              total_entries = 2\<rparr>"
    by (simp add: f rows Let_def in_window_def in_task_ids_def in_state_filter_def owns_def
        ex_ti_def ex_run1_def ex_run2_def ex_dag_def)
  with h show ?thesis by simp
qed

subsection \<open>The mutation\<close>


lemma post_clear_task_instances_cases:
  obtains (failed) e where
      "\<forall>dr. post_clear_task_instances partial_subset retry_equivalent d dag_bag (body\<lparr>dry_run := dr\<rparr>) s
            = (Inl e, s)"
    | (cleared) affected where "set affected \<subseteq> set (tis s)"
      "\<forall>dr. post_clear_task_instances partial_subset retry_equivalent d dag_bag (body\<lparr>dry_run := dr\<rparr>) s =
         (if dr then (Inr \<lparr>task_instances = affected, total_entries = length affected\<rparr>, s)
          else (Inr \<lparr>task_instances = map reset_try_fields affected,
                     total_entries = length affected\<rparr>,
                clear_task_instances affected s
                  (if reset_dag_runs body then Some DR_QUEUED else None)
                  (run_on_latest_version body)))"
proof (cases "get_latest_version_of_dag dag_bag d s")
  case None
  then have "\<forall>dr. post_clear_task_instances partial_subset retry_equivalent d dag_bag (body\<lparr>dry_run := dr\<rparr>) s
            = (Inl (HTTPException HTTP_404_NOT_FOUND (DagNotFound d)), s)"
    by (simp add: post_clear_task_instances_unresolved)
  then show ?thesis by (rule failed)
next
  case (Some dag)
  show ?thesis
  proof (cases "resolve_dag_run d dag_bag body dag s")
    case (Inl e)
    then have "\<forall>dr. resolve_dag_run d dag_bag (body\<lparr>dry_run := dr\<rparr>) dag s = Inl e"
      by (simp add: resolve_dag_run_dry_run)
    with Some have "\<forall>dr. post_clear_task_instances partial_subset retry_equivalent d dag_bag (body\<lparr>dry_run := dr\<rparr>) s
            = (Inl e, s)"
      by (simp add: post_clear_task_instances_unresolved)
    then show ?thesis by (rule failed)
  next
    case (Inr p)
    obtain dag1 body1 where p: "p = (dag1, body1)"
      by (cases p)
    obtain dag2 ids where exp: "expand_task_ids partial_subset body dag1 = (dag2, ids)"
      by (cases "expand_task_ids partial_subset body dag1")
    have res: "resolve_dag_run d dag_bag (body\<lparr>dry_run := dr\<rparr>) dag s = Inr (dag1, body1\<lparr>dry_run := dr\<rparr>)"
      for dr
      using Inr p by (simp add: resolve_dag_run_dry_run)
    have exp': "expand_task_ids partial_subset (body\<lparr>dry_run := dr\<rparr>) dag1 = (dag2, ids)" for dr
      using exp by (simp add: expand_task_ids_dry_run)
    note shape = post_clear_task_instances_resolved [OF Some res exp', where retry_equivalent = retry_equivalent]
    show ?thesis
    proof (cases "only_failed body \<and> only_running body")
      case True
      then have "\<forall>dr. post_clear_task_instances partial_subset retry_equivalent d dag_bag (body\<lparr>dry_run := dr\<rparr>) s
            = (Inl (HTTPException HTTP_400_BAD_REQUEST OnlyFailedAndOnlyRunning), s)"
        by (simp add: shape)
      then show ?thesis by (rule failed)
    next
      case False
      let ?affected = "filter (affected_by retry_equivalent dag2
                         \<lparr>dry_run = True, task_ids = ids,
                          run_on_latest_version = run_on_latest_version body,
                          only_failed = only_failed body, only_running = only_running body\<rparr>
                         (case dag_run_id body of
                            Some rid \<Rightarrow> ByRunId rid
                          | None \<Rightarrow> ByDates (if include_past body then None else start_date body)
                                             (if include_future body then None else end_date body))
                         s) (tis s)"
      have "set ?affected \<subseteq> set (tis s)"
        by simp
      moreover from False
      have "\<forall>dr. post_clear_task_instances partial_subset retry_equivalent d dag_bag (body\<lparr>dry_run := dr\<rparr>) s =
         (if dr then (Inr \<lparr>task_instances = ?affected, total_entries = length ?affected\<rparr>, s)
          else (Inr \<lparr>task_instances = map reset_try_fields ?affected,
                     total_entries = length ?affected\<rparr>,
                clear_task_instances ?affected s
                  (if reset_dag_runs body then Some DR_QUEUED else None)
                  (run_on_latest_version body)))"
        by (simp add: shape Let_def cong: option.case_cong)
      ultimately show ?thesis by (rule cleared)
    qed
  qed
qed


lemma body_dry_run_same: "body\<lparr>dry_run := dry_run body\<rparr> = (body :: ClearTaskInstancesBody)"
  by simp

lemma reset_try_fields_fields:
  "state (reset_try_fields row) = None \<and> ti_start_date (reset_try_fields row) = None
   \<and> ti_end_date (reset_try_fields row) = None \<and> ti_duration (reset_try_fields row) = None
   \<and> try_number (reset_try_fields row) = try_number row \<and> same_key (reset_try_fields row) row"
  by (simp add: reset_try_fields_def same_key_def)

text \<open>
  C8. When a request with \<^verbatim>\<open>dry_run\<close> false succeeds, there is a list of stored task
  instances, the affected ones, such that: the response shows them after their reset;
  in the store every row with the key of an affected task instance has its state set to
  \<^verbatim>\<open>none\<close> and its start date, end date and duration cleared, with the key and the try
  number as they were, and every other row is untouched; and the dag runs that own an
  affected task instance are set to \<^verbatim>\<open>QUEUED\<close> if \<^verbatim>\<open>reset_dag_runs\<close> is requested, while
  without it the dag runs are as they were.
\<close>

theorem post_clear_task_instances_reset:
  assumes "\<not> dry_run body"
    and "post_clear_task_instances partial_subset retry_equivalent d dag_bag body s = (Inr resp, s')"
  shows "\<exists>affected. set affected \<subseteq> set (tis s)
     \<and> task_instances resp = map reset_try_fields affected
     \<and> tis s' = map (\<lambda>row. if list_ex (same_key row) affected then reset_try_fields row else row) (tis s)
     \<and> (\<forall>ti \<in> set affected. reset_try_fields ti \<in> set (tis s'))
     \<and> dag_runs s' =
         (if reset_dag_runs body
          then map (\<lambda>dr. if list_ex (owns dr) affected then dr\<lparr>dagrun_state := DR_QUEUED\<rparr> else dr)
                   (dag_runs s)
          else dag_runs s)
     \<and> (\<forall>row. state (reset_try_fields row) = None \<and> ti_start_date (reset_try_fields row) = None
           \<and> ti_end_date (reset_try_fields row) = None \<and> ti_duration (reset_try_fields row) = None
           \<and> try_number (reset_try_fields row) = try_number row \<and> same_key (reset_try_fields row) row)"
proof (cases rule: post_clear_task_instances_cases [of partial_subset retry_equivalent d dag_bag body s])
  case (failed e)
  from failed [rule_format, of "dry_run body"]
  have "post_clear_task_instances partial_subset retry_equivalent d dag_bag body s = (Inl e, s)"
    unfolding body_dry_run_same .
  with assms(2) show ?thesis
    by simp
next
  case (cleared affected)
  from cleared(2) [rule_format, of "dry_run body"]
  have "post_clear_task_instances partial_subset retry_equivalent d dag_bag body s =
         (if dry_run body then (Inr \<lparr>task_instances = affected, total_entries = length affected\<rparr>, s)
          else (Inr \<lparr>task_instances = map reset_try_fields affected,
                     total_entries = length affected\<rparr>,
                clear_task_instances affected s
                  (if reset_dag_runs body then Some DR_QUEUED else None)
                  (run_on_latest_version body)))"
    unfolding body_dry_run_same .
  with assms have resp: "resp = \<lparr>task_instances = map reset_try_fields affected,
                     total_entries = length affected\<rparr>"
    and s': "s' = clear_task_instances affected s
                  (if reset_dag_runs body then Some DR_QUEUED else None)
                  (run_on_latest_version body)"
    by simp_all
  have rows: "tis s' = map (\<lambda>row. if list_ex (same_key row) affected then reset_try_fields row else row) (tis s)"
    unfolding s' by (rule tis_clear_task_instances)
  have each: "reset_try_fields ti \<in> set (tis s')" if "ti \<in> set affected" for ti
  proof -
    from that cleared(1) have "ti \<in> set (tis s)" by auto
    moreover from that have "list_ex (same_key ti) affected"
      unfolding list_ex_iff by (auto simp: same_key_def)
    ultimately show ?thesis
      unfolding rows by force
  qed
  have runs: "dag_runs s' =
         (if reset_dag_runs body
          then map (\<lambda>dr. if list_ex (owns dr) affected then dr\<lparr>dagrun_state := DR_QUEUED\<rparr> else dr)
                   (dag_runs s)
          else dag_runs s)"
    unfolding s'
    by (simp add: dag_runs_clear_task_instances_Some dag_runs_clear_task_instances_None)
  from cleared(1) resp rows each runs reset_try_fields_fields show ?thesis
    by (intro exI [of _ affected]) simp
qed


lemma ex_scenario:
  "post_clear_task_instances ex_partial_subset ex_retry_equivalent ''d'' ex_dag_bag ex_body ex_session
     = (Inr \<lparr>task_instances = [ex_cleared_ti], total_entries = 1\<rparr>, ex_cleared_session)"
  by (simp add: post_clear_task_instances_def resolve_dag_run_def select_dag_run_def scalar_def
      expand_task_ids_def dag_clear_def affected_by_def in_scope_def in_task_ids_def
      in_state_filter_def in_states_def clear_task_instances_def clear_one_def archive_def
      same_key_def owns_def reset_try_fields_def Let_def ex_defs)

theorem post_clear_task_instances_reset_witness:
  "\<not> dry_run ex_body
   \<and> post_clear_task_instances ex_partial_subset ex_retry_equivalent ''d'' ex_dag_bag ex_body ex_session
       = (Inr \<lparr>task_instances = [ex_cleared_ti], total_entries = 1\<rparr>, ex_cleared_session)
   \<and> (\<exists>affected. set affected \<subseteq> set (tis ex_session)
         \<and> [ex_cleared_ti] = map reset_try_fields affected
         \<and> tis ex_cleared_session =
             map (\<lambda>row. if list_ex (same_key row) affected then reset_try_fields row else row)
                 (tis ex_session)
         \<and> dag_runs ex_cleared_session =
             map (\<lambda>dr. if list_ex (owns dr) affected then dr\<lparr>dagrun_state := DR_QUEUED\<rparr> else dr)
                 (dag_runs ex_session))"
proof -
  have h: "\<not> dry_run ex_body" and r: "reset_dag_runs ex_body"
    by (simp_all add: ex_body_def)
  from post_clear_task_instances_reset [OF h ex_scenario]
  obtain affected where a: "set affected \<subseteq> set (tis ex_session)"
    "task_instances \<lparr>task_instances = [ex_cleared_ti], total_entries = 1\<rparr> = map reset_try_fields affected"
    "tis ex_cleared_session =
       map (\<lambda>row. if list_ex (same_key row) affected then reset_try_fields row else row)
           (tis ex_session)"
    "dag_runs ex_cleared_session =
         (if reset_dag_runs ex_body
          then map (\<lambda>dr. if list_ex (owns dr) affected then dr\<lparr>dagrun_state := DR_QUEUED\<rparr> else dr)
                   (dag_runs ex_session)
          else dag_runs ex_session)"
    by (elim exE conjE)
  from a(2) have "[ex_cleared_ti] = map reset_try_fields affected"
    by simp
  moreover from a(4) r have "dag_runs ex_cleared_session =
             map (\<lambda>dr. if list_ex (owns dr) affected then dr\<lparr>dagrun_state := DR_QUEUED\<rparr> else dr)
                 (dag_runs ex_session)"
    by simp
  ultimately show ?thesis
    using h ex_scenario a(1,3) by (intro conjI exI [of _ affected])
qed



subsection \<open>Preview and mutation\<close>


text \<open>
  C1. A request with \<^verbatim>\<open>dry_run\<close> true leaves the whole store as it was: no task instance
  state or try number and no dag run state changes. And for every request, the call with
  \<^verbatim>\<open>dry_run\<close> true and the call with \<^verbatim>\<open>dry_run\<close> false that follows it with the same scope
  agree: if the preview fails, so does the second call, with the same error and no
  change; if the preview returns a list of task instances, the second call returns the
  same task instances, shown reset, and in the store it resets exactly the rows that
  have the key of a previewed task instance, leaving every other row as it was.
\<close>

theorem post_clear_task_instances_dry_run:
  "(dry_run body \<longrightarrow>
      snd (post_clear_task_instances partial_subset retry_equivalent d dag_bag body s) = s)
   \<and> (case post_clear_task_instances partial_subset retry_equivalent d dag_bag
              (body\<lparr>dry_run := True\<rparr>) s of
         (Inl e, s1) \<Rightarrow>
           s1 = s
           \<and> post_clear_task_instances partial_subset retry_equivalent d dag_bag
                (body\<lparr>dry_run := False\<rparr>) s1 = (Inl e, s)
       | (Inr preview, s1) \<Rightarrow>
           s1 = s \<and> set (task_instances preview) \<subseteq> set (tis s)
           \<and> (\<exists>resp s'.
                 post_clear_task_instances partial_subset retry_equivalent d dag_bag
                   (body\<lparr>dry_run := False\<rparr>) s1 = (Inr resp, s')
                 \<and> task_instances resp = map reset_try_fields (task_instances preview)
                 \<and> total_entries resp = total_entries preview
                 \<and> tis s' =
                     map (\<lambda>row. if list_ex (same_key row) (task_instances preview)
                                then reset_try_fields row else row) (tis s)))"
proof (cases rule: post_clear_task_instances_cases [of partial_subset retry_equivalent d dag_bag body s])
  case (failed e)
  from failed [rule_format, of "dry_run body"]
  have "post_clear_task_instances partial_subset retry_equivalent d dag_bag body s = (Inl e, s)"
    unfolding body_dry_run_same .
  with failed show ?thesis
    by simp
next
  case (cleared affected)
  from cleared(2) [rule_format, of "dry_run body"]
  have "post_clear_task_instances partial_subset retry_equivalent d dag_bag body s =
         (if dry_run body then (Inr \<lparr>task_instances = affected, total_entries = length affected\<rparr>, s)
          else (Inr \<lparr>task_instances = map reset_try_fields affected,
                     total_entries = length affected\<rparr>,
                clear_task_instances affected s
                  (if reset_dag_runs body then Some DR_QUEUED else None)
                  (run_on_latest_version body)))"
    unfolding body_dry_run_same .
  then have 1: "dry_run body \<longrightarrow>
      snd (post_clear_task_instances partial_subset retry_equivalent d dag_bag body s) = s"
    by simp
  from cleared(2) [rule_format, of True]
  have t: "post_clear_task_instances partial_subset retry_equivalent d dag_bag (body\<lparr>dry_run := True\<rparr>) s
           = (Inr \<lparr>task_instances = affected, total_entries = length affected\<rparr>, s)"
    by simp
  from cleared(2) [rule_format, of False]
  have f: "post_clear_task_instances partial_subset retry_equivalent d dag_bag (body\<lparr>dry_run := False\<rparr>) s
           = (Inr \<lparr>task_instances = map reset_try_fields affected, total_entries = length affected\<rparr>,
              clear_task_instances affected s
                  (if reset_dag_runs body then Some DR_QUEUED else None)
                  (run_on_latest_version body))"
    by simp
  from 1 cleared(1) show ?thesis
    by (simp add: t f tis_clear_task_instances)
qed

lemma ex_preview:
  "post_clear_task_instances ex_partial_subset ex_retry_equivalent ''d'' ex_dag_bag
     (ex_body\<lparr>dry_run := True\<rparr>) ex_session
     = (Inr \<lparr>task_instances = [ex_ti ''r1'' ''t'' (- 1) (Some FAILED) 1], total_entries = 1\<rparr>,
        ex_session)"
  by (simp add: post_clear_task_instances_def resolve_dag_run_def select_dag_run_def scalar_def
      expand_task_ids_def dag_clear_def affected_by_def in_scope_def in_task_ids_def
      in_state_filter_def in_states_def Let_def ex_defs)

theorem post_clear_task_instances_dry_run_witness:
  "dry_run (ex_body\<lparr>dry_run := True\<rparr>)
   \<and> post_clear_task_instances ex_partial_subset ex_retry_equivalent ''d'' ex_dag_bag
        (ex_body\<lparr>dry_run := True\<rparr>) ex_session
       = (Inr \<lparr>task_instances = [ex_ti ''r1'' ''t'' (- 1) (Some FAILED) 1], total_entries = 1\<rparr>,
          ex_session)
   \<and> (\<exists>resp s'.
         post_clear_task_instances ex_partial_subset ex_retry_equivalent ''d'' ex_dag_bag
           (ex_body\<lparr>dry_run := False\<rparr>) ex_session = (Inr resp, s')
         \<and> task_instances resp = map reset_try_fields [ex_ti ''r1'' ''t'' (- 1) (Some FAILED) 1]
         \<and> tis s' =
             map (\<lambda>row. if list_ex (same_key row) [ex_ti ''r1'' ''t'' (- 1) (Some FAILED) 1]
                        then reset_try_fields row else row) (tis ex_session))"
proof -
  have h: "dry_run (ex_body\<lparr>dry_run := True\<rparr>)"
    by simp
  from post_clear_task_instances_dry_run
         [of ex_body ex_partial_subset ex_retry_equivalent "''d''" ex_dag_bag ex_session,
          THEN conjunct2, unfolded ex_preview]
  have "\<exists>resp s'.
         post_clear_task_instances ex_partial_subset ex_retry_equivalent ''d'' ex_dag_bag
           (ex_body\<lparr>dry_run := False\<rparr>) ex_session = (Inr resp, s')
         \<and> task_instances resp = map reset_try_fields [ex_ti ''r1'' ''t'' (- 1) (Some FAILED) 1]
         \<and> tis s' =
             map (\<lambda>row. if list_ex (same_key row) [ex_ti ''r1'' ''t'' (- 1) (Some FAILED) 1]
                        then reset_try_fields row else row) (tis ex_session)"
    by auto
  with h ex_preview show ?thesis
    by (intro conjI)
qed

end
